theory Spec2Isabelle
  imports Complex_Main "HOL-Library.Sublist"
begin

section \<open>JavaScript values used by the services\<close>

text \<open>
  Strings are lists of \<^typ>\<open>char\<close>: a character is one code unit in the range 0..255,
  read as Latin-1. JavaScript numbers that the code only copies or compares are reals;
  millisecond timestamps and delays are integers and naturals.
\<close>

type_synonym number = real

definition is_upper_ascii :: "char \<Rightarrow> bool" where
  "is_upper_ascii c = (let n = (of_char c :: nat) in 65 \<le> n \<and> n \<le> 90)"

definition is_lower_ascii :: "char \<Rightarrow> bool" where
  "is_lower_ascii c = (let n = (of_char c :: nat) in 97 \<le> n \<and> n \<le> 122)"

definition is_upper_latin1 :: "char \<Rightarrow> bool" where
  "is_upper_latin1 c = (let n = (of_char c :: nat) in 192 \<le> n \<and> n \<le> 222 \<and> n \<noteq> 215)"

definition is_lower_latin1 :: "char \<Rightarrow> bool" where
  "is_lower_latin1 c = (let n = (of_char c :: nat) in 224 \<le> n \<and> n \<le> 254 \<and> n \<noteq> 247)"

text \<open>\<open>String.prototype.toLowerCase\<close>, one code unit at a time.\<close>

definition toLowerCase_char :: "char \<Rightarrow> char" where
  "toLowerCase_char c =
     (if is_upper_ascii c \<or> is_upper_latin1 c then char_of (of_char c + (32 :: nat)) else c)"

definition toLowerCase :: "string \<Rightarrow> string" where
  "toLowerCase s = map toLowerCase_char s"

text \<open>\<open>Array.prototype.join\<close> on an array of strings.\<close>

fun join :: "string \<Rightarrow> string list \<Rightarrow> string" where
  "join sep [] = []"
| "join sep [x] = x"
| "join sep (x # y # ys) = x @ sep @ join sep (y # ys)"

text \<open>\<open>String.prototype.includes\<close>: the keyword occurs as a contiguous substring.\<close>

fun includes_str :: "string \<Rightarrow> string \<Rightarrow> bool" where
  "includes_str [] k = (k = [])"
| "includes_str (c # cs) k = (prefix k (c # cs) \<or> includes_str cs k)"

section \<open>Regular expressions of the group-size patterns\<close>

text \<open>
  The six patterns are built from four kinds of terms only: the assertion \<open>\b\<close>, the
  capturing group \<open>(\d+)\<close>, the greedy \<open>\s+\<close>, and literal characters compared without
  regard to case (flag \<open>i\<close>). The matcher below is the backtracking matcher of the
  language for these terms: a greedy quantifier tries the longest run first and gives
  characters back one at a time when the rest of the pattern fails.
\<close>

datatype regex_term = WordBoundary | CaptureDigits | Spaces | Chars string

type_synonym regex = "regex_term list"

definition is_digit :: "char \<Rightarrow> bool" where
  "is_digit c = (let n = (of_char c :: nat) in 48 \<le> n \<and> n \<le> 57)"

definition is_word_char :: "char \<Rightarrow> bool" where
  "is_word_char c = (is_upper_ascii c \<or> is_lower_ascii c \<or> is_digit c \<or> c = CHR ''_'')"

text \<open>White space of \<open>\s\<close> below code unit 256: TAB, LF, VT, FF, CR, SP and NBSP.\<close>

definition is_space :: "char \<Rightarrow> bool" where
  "is_space c = (let n = (of_char c :: nat) in (9 \<le> n \<and> n \<le> 13) \<or> n = 32 \<or> n = 160)"

text \<open>
  Canonicalisation of a character for case-insensitive comparison: its upper-case form,
  unless that would turn a non-ASCII character into an ASCII one. The two Latin-1
  letters whose upper-case forms lie above code unit 255 keep their own code.
\<close>

definition canonicalize :: "char \<Rightarrow> char" where
  "canonicalize c =
     (if is_lower_ascii c \<or> is_lower_latin1 c then char_of (of_char c - (32 :: nat)) else c)"

definition is_word_at :: "char option \<Rightarrow> bool" where
  "is_word_at c = (case c of None \<Rightarrow> False | Some x \<Rightarrow> is_word_char x)"

definition next_char :: "string \<Rightarrow> char option" where
  "next_char s = (case s of [] \<Rightarrow> None | x # _ \<Rightarrow> Some x)"

text \<open>
  All the ways a greedy \<open>+\<close> over a character class can consume a prefix of the input:
  pairs (consumed, rest), the longest first.
\<close>

fun greedy :: "(char \<Rightarrow> bool) \<Rightarrow> string \<Rightarrow> (string \<times> string) list" where
  "greedy p [] = []"
| "greedy p (c # cs) =
     (if p c then map (\<lambda>(t, r). (c # t, r)) (greedy p cs) @ [([c], cs)] else [])"

text \<open>
  \<open>match_here r prev s cap\<close>: the pattern \<open>r\<close> matches a prefix of \<open>s\<close>, where \<open>prev\<close> is
  the character before \<open>s\<close> in the whole input (none at its start) and \<open>cap\<close> is capture
  group 1 so far. The result is the final value of capture group 1. \<open>backtrack\<close> tries
  the rest of the pattern after each way of consuming a quantified run, the longest
  first, and keeps the first that succeeds; \<open>capture\<close> says whether the run is group 1.
\<close>

fun match_here :: "regex \<Rightarrow> char option \<Rightarrow> string \<Rightarrow> string option \<Rightarrow> string option option"
  and backtrack :: "regex \<Rightarrow> bool \<Rightarrow> string option \<Rightarrow> (string \<times> string) list \<Rightarrow> string option option"
where
  "match_here [] prev s cap = Some cap"
| "match_here (WordBoundary # r) prev s cap =
     (if is_word_at prev \<noteq> is_word_at (next_char s) then match_here r prev s cap else None)"
| "match_here (Chars [] # r) prev s cap = match_here r prev s cap"
| "match_here (Chars (c # cs) # r) prev [] cap = None"
| "match_here (Chars (c # cs) # r) prev (x # xs) cap =
     (if canonicalize x = canonicalize c then match_here (Chars cs # r) (Some x) xs cap else None)"
| "match_here (Spaces # r) prev s cap = backtrack r False cap (greedy is_space s)"
| "match_here (CaptureDigits # r) prev s cap = backtrack r True cap (greedy is_digit s)"
| "backtrack r capture cap [] = None"
| "backtrack r capture cap ((t, rest) # shorter) =
     (case match_here r (Some (last t)) rest (if capture then Some t else cap) of
        Some result \<Rightarrow> Some result
      | None \<Rightarrow> backtrack r capture cap shorter)"

text \<open>
  \<open>String.prototype.match\<close> with a non-global pattern: the match at the leftmost start
  position; the result is capture group 1 of that match.
\<close>

fun search_from :: "regex \<Rightarrow> char option \<Rightarrow> string \<Rightarrow> string option option" where
  "search_from r prev [] = match_here r prev [] None"
| "search_from r prev (x # xs) =
     (case match_here r prev (x # xs) None of
        Some cap \<Rightarrow> Some cap
      | None \<Rightarrow> search_from r (Some x) xs)"

definition match :: "string \<Rightarrow> regex \<Rightarrow> string option option" where
  "match text r = search_from r None text"

text \<open>
  \<open>parseInt(s, 10)\<close>: leading white space, an optional sign, then the longest run of
  decimal digits; \<open>NaN\<close> (here \<open>None\<close>) when there is no digit.
\<close>

definition digit_value :: "char \<Rightarrow> int" where
  "digit_value c = int (of_char c) - 48"

definition digits_value :: "string \<Rightarrow> int" where
  "digits_value ds = foldl (\<lambda>acc d. 10 * acc + digit_value d) 0 ds"

definition parseInt :: "string \<Rightarrow> number option" where
  "parseInt s =
     (let t = dropWhile is_space s;
          neg = (next_char t = Some CHR ''-'');
          u = (if next_char t = Some CHR ''-'' \<or> next_char t = Some CHR ''+'' then tl t else t);
          ds = takeWhile is_digit u
      in if ds = [] then None
         else Some (of_int (if neg then - digits_value ds else digits_value ds)))"

section \<open>Conversation types\<close>

datatype role = User | Assistant

record message =
  role :: role
  content :: string
  msg_timestamp :: int

record Coordinates =
  lat :: number
  lng :: number

record named_location = Coordinates +
  name :: string

record ConversationContext =
  location :: "named_location option"
  timeOfDay :: "string option"
  weather :: "string option"
  groupSize :: "number option"
  occasion :: "string option"
  mood :: "string option"

definition empty_context :: ConversationContext where
  "empty_context =
     \<lparr>location = None, timeOfDay = None, weather = None,
      groupSize = None, occasion = None, mood = None\<rparr>"

section \<open>ContextService.extractContextFromConversation\<close>

definition moodKeywords :: "(string \<times> string list) list" where
  "moodKeywords =
     [(''romantic'', [''romantic'', ''date'', ''intimate'', ''cozy'', ''candlelit'']),
      (''casual'', [''casual'', ''relaxed'', ''laid-back'', ''chill'']),
      (''energetic'', [''energetic'', ''lively'', ''vibrant'', ''bustling'', ''busy'']),
      (''quiet'', [''quiet'', ''peaceful'', ''calm'', ''serene'', ''tranquil'']),
      (''upscale'', [''upscale'', ''fancy'', ''elegant'', ''sophisticated'', ''fine dining''])]"

definition occasionKeywords :: "(string \<times> string list) list" where
  "occasionKeywords =
     [(''date night'', [''date'', ''romantic dinner'', ''anniversary'']),
      (''business meeting'', [''business'', ''meeting'', ''professional'', ''client'']),
      (''group hangout'', [''friends'', ''group'', ''hangout'', ''gathering'']),
      (''family dinner'', [''family'', ''kids'', ''children'']),
      (''celebration'', [''celebration'', ''birthday'', ''party'', ''special occasion''])]"

definition groupSizePatterns :: "regex list" where
  "groupSizePatterns =
     [[WordBoundary, CaptureDigits, Spaces, Chars ''people'', WordBoundary],
      [WordBoundary, Chars ''group'', Spaces, Chars ''of'', Spaces, CaptureDigits, WordBoundary],
      [WordBoundary, Chars ''party'', Spaces, Chars ''of'', Spaces, CaptureDigits, WordBoundary],
      [WordBoundary, CaptureDigits, Spaces, Chars ''of'', Spaces, Chars ''us'', WordBoundary],
      [WordBoundary, Chars ''for'', Spaces, CaptureDigits, WordBoundary],
      [WordBoundary, Chars ''just'', Spaces, Chars ''for'', Spaces, CaptureDigits, WordBoundary]]"

definition conversationText :: "message list \<Rightarrow> string" where
  "conversationText messages =
     (let userMessages = filter (\<lambda>msg. role msg = User) messages
      in join '' '' (map (\<lambda>msg. toLowerCase (content msg)) userMessages))"

text \<open>
  The loop over the entries of a keyword table, in insertion order: the first entry one
  of whose keywords occurs in the text, and then \<open>break\<close>.
\<close>

fun scan_keywords :: "(string \<times> string list) list \<Rightarrow> string \<Rightarrow> string option" where
  "scan_keywords [] text = None"
| "scan_keywords ((label, keywords) # rest) text =
     (if list_ex (\<lambda>keyword. includes_str text keyword) keywords then Some label
      else scan_keywords rest text)"

text \<open>
  The loop over the group-size patterns: a pattern whose capture is non-empty and parses
  to a size with \<open>0 < size \<le> 100\<close> sets the group size and ends the loop; any other
  pattern is passed over.
\<close>

fun scan_patterns :: "regex list \<Rightarrow> string \<Rightarrow> number option" where
  "scan_patterns [] text = None"
| "scan_patterns (pattern # rest) text =
     (case match text pattern of
        Some (Some m1) \<Rightarrow>
          (if m1 \<noteq> [] then
             (case parseInt m1 of
                Some sz \<Rightarrow>
                  (if sz > 0 \<and> sz \<le> 100 then Some sz else scan_patterns rest text)
              | None \<Rightarrow> scan_patterns rest text)
           else scan_patterns rest text)
      | _ \<Rightarrow> scan_patterns rest text)"

definition solo_indicator :: "string \<Rightarrow> bool" where
  "solo_indicator text =
     (includes_str text ''just me'' \<or> includes_str text ''by myself'' \<or>
      includes_str text ''solo'' \<or> includes_str text ''just for me'')"

definition extractContextFromConversation :: "message list \<Rightarrow> ConversationContext" where
  "extractContextFromConversation messages =
     (let text = conversationText messages;
          context1 = empty_context\<lparr>mood := scan_keywords moodKeywords text\<rparr>;
          context2 = context1\<lparr>occasion := scan_keywords occasionKeywords text\<rparr>
      in if solo_indicator text then context2\<lparr>groupSize := Some 1\<rparr>
         else context2\<lparr>groupSize := scan_patterns groupSizePatterns text\<rparr>)"


section \<open>ContextService: time and weather\<close>

text \<open>What the code reads from \<open>new Date()\<close>: the instant, the local hour, the weekday name.\<close>

record date =
  epoch_ms :: int
  getHours :: nat
  weekday_long :: string

datatype time_of_day = morning | afternoon | evening | night

record TimeContext =
  timestamp :: date
  time_timeOfDay :: time_of_day
  dayOfWeek :: string

record WeatherContext =
  condition :: string
  temperature :: number
  description :: string

record LocationContext = Coordinates +
  loc_name :: "string option"

record CurrentContext =
  time :: TimeContext
  cur_weather :: "WeatherContext option"
  cur_location :: LocationContext

record weather_item =
  ow_main :: string
  ow_description :: string

record OpenWeatherResponse =
  ow_weather :: "weather_item list"
  ow_temp :: number

record weather_params =
  wp_lat :: number
  wp_lon :: number
  appid :: string
  units :: string

section \<open>Errors, HTTP clients and the runtime\<close>

record error_body =
  err_code :: "string option"
  err_description :: "string option"

text \<open>The body of an error response, as far as the code reads it: its \<open>error\<close> member.\<close>

record response_data =
  body_error :: "error_body option"

record axios_response =
  status :: nat
  data :: "response_data option"

text \<open>
  The values a request can be rejected with or the code can throw: an error of the HTTP
  library (with the response when one arrived), a plain \<open>Error\<close>, a \<open>TypeError\<close>, and
  \<open>null\<close> (what \<open>throw lastError\<close> throws when no attempt was made).
\<close>

datatype thrown =
  AxiosError string "axios_response option"
| Error string
| TypeError string
| Null

record axios_config =
  baseURL :: string
  headers :: "(string \<times> string) list"
  timeout :: nat

datatype event = Request | Sleep nat | Warn

text \<open>
  The state of the process outside the services: the world \<open>'w\<close> that requests and
  timers act on, and the record of the requests sent, the delays waited and the warnings
  printed, in order.
\<close>

record 'w sys =
  world :: 'w
  trace :: "event list"

definition invoke :: "('w \<Rightarrow> 'r \<times> 'w) \<Rightarrow> 'w sys \<Rightarrow> 'r \<times> 'w sys" where
  "invoke f s = (case f (world s) of (r, w') \<Rightarrow> (r, s\<lparr>world := w', trace := trace s @ [Request]\<rparr>))"

definition console_warn :: "'w sys \<Rightarrow> 'w sys" where
  "console_warn s = s\<lparr>trace := trace s @ [Warn]\<rparr>"

definition truthy :: "string option \<Rightarrow> bool" where
  "truthy v = (case v of None \<Rightarrow> False | Some x \<Rightarrow> x \<noteq> [])"

text \<open>The operator \<open>||\<close> on optional strings.\<close>

definition or_else :: "string option \<Rightarrow> string option \<Rightarrow> string option" where
  "or_else a b = (if truthy a then a else b)"


section \<open>Types of the recommendation client\<close>

record yelp_context =
  ctx_location :: "Coordinates option"
  time_of_day :: "string option"
  ctx_weather :: "string option"
  group_size :: "number option"
  ctx_occasion :: "string option"

record YelpChatRequest =
  req_message :: string
  req_context :: "yelp_context option"
  conversation_history :: "(role \<times> string) list"

record yelp_recommendation =
  place_id :: string
  rec_name :: string
  rec_rating :: number
  rec_coordinates :: Coordinates
  relevance_score :: number
  rec_reasoning :: "string option"
  rec_address :: "string option"
  rec_categories :: "string list option"
  rec_photos :: "string list option"
  rec_phone :: "string option"
  rec_hours :: "string option"
  price_range :: "string option"

record YelpChatResponse =
  response :: string
  recommendations :: "yelp_recommendation list option"

record yelp_coordinates =
  latitude :: number
  longitude :: number

record yelp_location =
  address1 :: string
  city :: string
  state :: string
  zip_code :: string

record yelp_category =
  title :: string

record open_slot =
  slot_start :: string
  slot_end :: string
  slot_day :: number

record yelp_hours =
  hours_open :: "open_slot list"

record YelpPlaceDetailsResponse =
  d_id :: string
  d_name :: string
  d_rating :: number
  d_coordinates :: yelp_coordinates
  d_location :: yelp_location
  d_categories :: "yelp_category list"
  d_photos :: "string list option"
  d_phone :: "string option"
  d_hours :: "yelp_hours list option"
  d_price :: "string option"

record yelp_business =
  b_id :: string
  b_name :: string
  b_rating :: number
  b_coordinates :: yelp_coordinates
  b_location :: yelp_location
  b_categories :: "yelp_category list"
  image_url :: string
  b_phone :: "string option"
  b_price :: "string option"

record YelpSearchResponse =
  businesses :: "yelp_business list"

record Recommendation =
  placeId :: string
  placeName :: string
  relevanceScore :: number
  reasoning :: "string option"

record Place =
  pl_placeId :: string
  pl_name :: string
  address :: string
  rating :: number
  categories :: "string list"
  photos :: "string list"
  coordinates :: Coordinates
  phone :: "string option"
  hours :: "string option"
  priceRange :: "string option"

record chat_result =
  res_response :: string
  res_recommendations :: "Recommendation list"

record search_filters =
  f_categories :: "string list option"
  f_price :: "string list option"
  f_radius :: "number option"
  f_limit :: "number option"

record search_params =
  q_term :: string
  q_latitude :: number
  q_longitude :: number
  q_limit :: number
  q_categories :: "string option"
  q_price :: "string option"
  q_radius :: "number option"

text \<open>The objects handed to \<open>JSON.stringify\<close> when a cache key is made.\<close>

datatype cache_params =
  ChatParams string "ConversationContext option"
| PlaceParams string
| SearchParams string Coordinates "search_filters option"

text \<open>What the cache holds (\<open>CacheEntry<any>\<close>) and the operations return.\<close>

datatype cached_value =
  ChatValue chat_result
| PlaceValue Place
| PlacesValue "Place list"

record CacheEntry =
  entry_data :: cached_value
  entry_timestamp :: int

record YelpService =
  client :: axios_config
  cache :: "string \<rightharpoonup> CacheEntry"

text \<open>
  What the services take from their environment: the clock, the timer, the serialiser of
  cache keys, and the four remote endpoints behind the HTTP clients. A request acts on
  the world and is either rejected with a thrown value or resolved with the body.
\<close>

record 'w runtime =
  date_now :: "'w \<Rightarrow> int"
  new_Date :: "'w \<Rightarrow> date"
  wait_ms :: "nat \<Rightarrow> 'w \<Rightarrow> 'w"
  JSON_stringify :: "cache_params \<Rightarrow> string"
  weather_get :: "axios_config \<Rightarrow> string \<Rightarrow> weather_params \<Rightarrow> 'w \<Rightarrow> (thrown + OpenWeatherResponse) \<times> 'w"
  chat_post :: "axios_config \<Rightarrow> string \<Rightarrow> YelpChatRequest \<Rightarrow> 'w \<Rightarrow> (thrown + YelpChatResponse) \<times> 'w"
  details_get :: "axios_config \<Rightarrow> string \<Rightarrow> 'w \<Rightarrow> (thrown + YelpPlaceDetailsResponse) \<times> 'w"
  search_get :: "axios_config \<Rightarrow> string \<Rightarrow> search_params \<Rightarrow> 'w \<Rightarrow> (thrown + YelpSearchResponse) \<times> 'w"

definition sleep :: "'w runtime \<Rightarrow> nat \<Rightarrow> 'w sys \<Rightarrow> 'w sys" where
  "sleep rt ms s = s\<lparr>world := wait_ms rt ms (world s), trace := trace s @ [Sleep ms]\<rparr>"

section \<open>ContextService\<close>

record ContextService =
  weatherClient :: "axios_config option"
  weatherApiKey :: "string option"

definition ContextService_constructor ::
    "(string \<rightharpoonup> string) \<Rightarrow> string option \<Rightarrow> ContextService" where
  "ContextService_constructor env key_arg =
     (let key = or_else (or_else key_arg (env ''OPENWEATHER_API_KEY'')) None
      in if truthy key
         then \<lparr>weatherClient =
                 Some \<lparr>baseURL = ''https://api.openweathermap.org/data/2.5'',
                       headers = [], timeout = 5000\<rparr>,
               weatherApiKey = key\<rparr>
         else \<lparr>weatherClient = None, weatherApiKey = key\<rparr>)"

definition getTimeContext :: "date \<Rightarrow> TimeContext" where
  "getTimeContext now =
     (let hour = getHours now;
          dayOfWeek = weekday_long now;
          timeOfDay =
            (if hour \<ge> 5 \<and> hour < 12 then morning
             else if hour \<ge> 12 \<and> hour < 17 then afternoon
             else if hour \<ge> 17 \<and> hour < 21 then evening
             else night)
      in \<lparr>timestamp = now, time_timeOfDay = timeOfDay, dayOfWeek = dayOfWeek\<rparr>)"

text \<open>
  The body of the \<open>try\<close> block after the response arrived: reading \<open>weather[0].main\<close> of
  an empty array throws a \<open>TypeError\<close>.
\<close>

definition read_weather :: "OpenWeatherResponse \<Rightarrow> thrown + WeatherContext" where
  "read_weather r =
     (case ow_weather r of
        [] \<Rightarrow> Inl (TypeError ''Cannot read properties of undefined'')
      | w0 # _ \<Rightarrow>
          Inr \<lparr>condition = ow_main w0, temperature = ow_temp r, description = ow_description w0\<rparr>)"

definition getWeatherWithFallback ::
    "'w runtime \<Rightarrow> ContextService \<Rightarrow> 'l LocationContext_scheme \<Rightarrow> 'w sys
      \<Rightarrow> (thrown + WeatherContext option) \<times> 'w sys" where
  "getWeatherWithFallback rt svc loc s =
     (case (weatherClient svc, weatherApiKey svc) of
        (Some cl, Some key) \<Rightarrow>
          (if \<not> truthy (Some key) then (Inr None, s)
           else
             (case invoke (weather_get rt cl ''/weather''
                     \<lparr>wp_lat = lat loc, wp_lon = lng loc, appid = key, units = ''imperial''\<rparr>) s of
                (Inr resp, s1) \<Rightarrow>
                  (case read_weather resp of
                     Inr wc \<Rightarrow> (Inr (Some wc), s1)
                   | Inl err \<Rightarrow> (Inr None, console_warn s1))
              | (Inl err, s1) \<Rightarrow> (Inr None, console_warn s1)))
      | _ \<Rightarrow> (Inr None, s))"

definition getCurrentContext ::
    "'w runtime \<Rightarrow> ContextService \<Rightarrow> LocationContext \<Rightarrow> 'w sys
      \<Rightarrow> (thrown + CurrentContext) \<times> 'w sys" where
  "getCurrentContext rt svc loc s =
     (let t = getTimeContext (new_Date rt (world s))
      in case getWeatherWithFallback rt svc loc s of
           (Inl err, s1) \<Rightarrow> (Inl err, s1)
         | (Inr w, s1) \<Rightarrow> (Inr \<lparr>time = t, cur_weather = w, cur_location = loc\<rparr>, s1))"


section \<open>YelpService\<close>

definition CACHE_TTL :: int where
  "CACHE_TTL = 5 * 60 * 1000"

definition YelpService_constructor ::
    "(string \<rightharpoonup> string) \<Rightarrow> string option \<Rightarrow> thrown + YelpService" where
  "YelpService_constructor env apiKey =
     (let key = or_else apiKey (env ''YELP_API_KEY'')
      in case key of
           None \<Rightarrow> Inl (Error ''Yelp API key is required'')
         | Some k \<Rightarrow>
             (if k = [] then Inl (Error ''Yelp API key is required'')
              else Inr \<lparr>client =
                          \<lparr>baseURL = ''https://api.yelp.com'',
                           headers = [(''Authorization'', ''Bearer '' @ k),
                                      (''Content-Type'', ''application/json'')],
                           timeout = 10000\<rparr>,
                        cache = Map.empty\<rparr>))"

subsection \<open>Retry with exponential backoff\<close>

text \<open>
  The test \<open>axios.isAxiosError(error) && error.response?.status && error.response.status < 500\<close>.
  A status of 0 is falsy, so it does not count as a client error.
\<close>

definition is_client_error :: "thrown \<Rightarrow> bool" where
  "is_client_error err =
     (case err of
        AxiosError m (Some r) \<Rightarrow> status r \<noteq> 0 \<and> status r < 500
      | _ \<Rightarrow> False)"

text \<open>
  The \<open>for\<close> loop of \<open>retryRequest\<close>, from the attempt \<open>attempt\<close> on. The budget
  \<open>maxRetries\<close> is a natural number: every caller passes 3.
\<close>

function retry_loop ::
    "'w runtime \<Rightarrow> ('w \<Rightarrow> (thrown + 'a) \<times> 'w) \<Rightarrow> nat \<Rightarrow> nat \<Rightarrow> thrown option \<Rightarrow> 'w sys
      \<Rightarrow> (thrown + 'a) \<times> 'w sys" where
  "retry_loop rt requestFn maxRetries attempt lastError s =
     (if attempt < maxRetries then
        (case invoke requestFn s of
           (Inr d, s1) \<Rightarrow> (Inr d, s1)
         | (Inl err, s1) \<Rightarrow>
             (if is_client_error err then (Inl err, s1)
              else if attempt < maxRetries - 1
                then retry_loop rt requestFn maxRetries (attempt + 1) (Some err)
                       (sleep rt (2 ^ attempt * 1000) s1)
                else retry_loop rt requestFn maxRetries (attempt + 1) (Some err) s1))
      else (Inl (case lastError of None \<Rightarrow> Null | Some e \<Rightarrow> e), s))"
  by pat_completeness auto
termination
  by (relation "measure (\<lambda>(rt, requestFn, maxRetries, attempt, lastError, s). maxRetries - attempt)")
     auto

definition retryRequest ::
    "'w runtime \<Rightarrow> ('w \<Rightarrow> (thrown + 'a) \<times> 'w) \<Rightarrow> nat \<Rightarrow> 'w sys \<Rightarrow> (thrown + 'a) \<times> 'w sys" where
  "retryRequest rt requestFn maxRetries s = retry_loop rt requestFn maxRetries 0 None s"

subsection \<open>Normalisation of requests and responses\<close>

definition formatContext :: "ConversationContext \<Rightarrow> yelp_context" where
  "formatContext context =
     \<lparr>ctx_location =
        (case location context of
           Some l \<Rightarrow> Some \<lparr>lat = lat l, lng = lng l\<rparr>
         | None \<Rightarrow> None),
      time_of_day = timeOfDay context,
      ctx_weather = weather context,
      group_size = groupSize context,
      ctx_occasion = occasion context\<rparr>"

definition parseRecommendations :: "yelp_recommendation list option \<Rightarrow> Recommendation list" where
  "parseRecommendations recs =
     (case recs of
        None \<Rightarrow> []
      | Some rs \<Rightarrow>
          map (\<lambda>rec. \<lparr>placeId = place_id rec, placeName = rec_name rec,
                       relevanceScore = relevance_score rec, reasoning = rec_reasoning rec\<rparr>) rs)"

definition formatAddress :: "yelp_location \<Rightarrow> string" where
  "formatAddress l = address1 l @ '', '' @ city l @ '', '' @ state l @ '' '' @ zip_code l"

definition formatHours :: "yelp_hours list option \<Rightarrow> string option" where
  "formatHours hs =
     (case hs of
        None \<Rightarrow> None
      | Some xs \<Rightarrow> (if length xs = 0 then None else Some ''See Yelp for hours''))"

definition formatPlaceDetails :: "YelpPlaceDetailsResponse \<Rightarrow> Place" where
  "formatPlaceDetails r =
     \<lparr>pl_placeId = d_id r,
      pl_name = d_name r,
      address = formatAddress (d_location r),
      rating = d_rating r,
      categories = map title (d_categories r),
      photos = (case d_photos r of Some ps \<Rightarrow> ps | None \<Rightarrow> []),
      coordinates = \<lparr>lat = latitude (d_coordinates r), lng = longitude (d_coordinates r)\<rparr>,
      phone = d_phone r,
      hours = formatHours (d_hours r),
      priceRange = d_price r\<rparr>"

definition formatSearchResult :: "yelp_business \<Rightarrow> Place" where
  "formatSearchResult business =
     \<lparr>pl_placeId = b_id business,
      pl_name = b_name business,
      address = formatAddress (b_location business),
      rating = b_rating business,
      categories = map title (b_categories business),
      photos = (if image_url business \<noteq> [] then [image_url business] else []),
      coordinates =
        \<lparr>lat = latitude (b_coordinates business), lng = longitude (b_coordinates business)\<rparr>,
      phone = b_phone business,
      hours = None,
      priceRange = b_price business\<rparr>"

subsection \<open>Error normalisation\<close>

definition handleError :: "thrown \<Rightarrow> string \<Rightarrow> thrown" where
  "handleError err msg =
     (case err of
        AxiosError m resp \<Rightarrow>
          (let st = map_option status resp;
               dat = (case resp of None \<Rightarrow> None | Some r \<Rightarrow> data r)
           in if st = Some 401 then Error ''Yelp API authentication failed''
              else if st = Some 429 then Error ''Yelp API rate limit exceeded''
              else if (case st of None \<Rightarrow> False | Some n \<Rightarrow> n \<noteq> 0 \<and> n \<ge> 500)
                then Error (''Yelp API server error: '' @ msg)
              else
                (case (case dat of None \<Rightarrow> None | Some d \<Rightarrow> body_error d) of
                   Some e \<Rightarrow>
                     Error (''Yelp API error: '' @
                       (case err_description e of
                          Some dsc \<Rightarrow> (if dsc \<noteq> [] then dsc else msg)
                        | None \<Rightarrow> msg))
                 | None \<Rightarrow> Error msg))
      | _ \<Rightarrow> Error msg)"

subsection \<open>The cache\<close>

definition generateCacheKey :: "'w runtime \<Rightarrow> string \<Rightarrow> cache_params \<Rightarrow> string" where
  "generateCacheKey rt type params = type @ '':'' @ JSON_stringify rt params"

definition getFromCache ::
    "'w runtime \<Rightarrow> YelpService \<Rightarrow> string \<Rightarrow> 'w sys \<Rightarrow> cached_value option \<times> YelpService" where
  "getFromCache rt svc key s =
     (case cache svc key of
        None \<Rightarrow> (None, svc)
      | Some entry \<Rightarrow>
          (let now = date_now rt (world s)
           in if now - entry_timestamp entry > CACHE_TTL
              then (None, svc\<lparr>cache := (cache svc)(key := None)\<rparr>)
              else (Some (entry_data entry), svc)))"

definition setCache ::
    "'w runtime \<Rightarrow> YelpService \<Rightarrow> string \<Rightarrow> cached_value \<Rightarrow> 'w sys \<Rightarrow> YelpService" where
  "setCache rt svc key d s =
     svc\<lparr>cache := (cache svc)(key \<mapsto> \<lparr>entry_data = d, entry_timestamp = date_now rt (world s)\<rparr>)\<rparr>"

definition clearCache :: "YelpService \<Rightarrow> YelpService" where
  "clearCache svc = svc\<lparr>cache := Map.empty\<rparr>"


subsection \<open>The three operations\<close>

text \<open>
  Each operation returns its result (a thrown value when the promise is rejected), the
  service with its cache as the operation left it, and the state of the process.
\<close>

definition chat_request ::
    "string \<Rightarrow> message list \<Rightarrow> ConversationContext option \<Rightarrow> YelpChatRequest" where
  "chat_request msg conversationHistory context =
     \<lparr>req_message = msg,
      req_context = (case context of Some c \<Rightarrow> Some (formatContext c) | None \<Rightarrow> None),
      conversation_history = map (\<lambda>m. (role m, content m)) conversationHistory\<rparr>"

definition sendChatMessage ::
    "'w runtime \<Rightarrow> YelpService \<Rightarrow> string \<Rightarrow> message list option \<Rightarrow> ConversationContext option
      \<Rightarrow> 'w sys \<Rightarrow> (thrown + cached_value) \<times> YelpService \<times> 'w sys" where
  "sendChatMessage rt svc msg conversationHistory context s =
     (let history = (case conversationHistory of None \<Rightarrow> [] | Some h \<Rightarrow> h);
          cacheKey = generateCacheKey rt ''chat'' (ChatParams msg context)
      in case getFromCache rt svc cacheKey s of
           (Some cached, svc1) \<Rightarrow> (Inr cached, svc1, s)
         | (None, svc1) \<Rightarrow>
             (let request = chat_request msg history context
              in case retryRequest rt (chat_post rt (client svc1) ''/v2/ai/chat'' request) 3 s of
                   (Inr resp, s1) \<Rightarrow>
                     (let result =
                            ChatValue
                              \<lparr>res_response = response resp,
                               res_recommendations =
                                 parseRecommendations
                                   (Some (case recommendations resp of Some rs \<Rightarrow> rs | None \<Rightarrow> []))\<rparr>
                      in (Inr result, setCache rt svc1 cacheKey result s1, s1))
                 | (Inl err, s1) \<Rightarrow>
                     (Inl (handleError err ''Failed to send chat message''), svc1, s1)))"

definition getPlaceDetails ::
    "'w runtime \<Rightarrow> YelpService \<Rightarrow> string \<Rightarrow> 'w sys
      \<Rightarrow> (thrown + cached_value) \<times> YelpService \<times> 'w sys" where
  "getPlaceDetails rt svc pid s =
     (let cacheKey = generateCacheKey rt ''place'' (PlaceParams pid)
      in case getFromCache rt svc cacheKey s of
           (Some cached, svc1) \<Rightarrow> (Inr cached, svc1, s)
         | (None, svc1) \<Rightarrow>
             (case retryRequest rt (details_get rt (client svc1) (''/v3/businesses/'' @ pid)) 3 s of
                (Inr resp, s1) \<Rightarrow>
                  (let place = PlaceValue (formatPlaceDetails resp)
                   in (Inr place, setCache rt svc1 cacheKey place s1, s1))
              | (Inl err, s1) \<Rightarrow>
                  (Inl (handleError err (''Failed to get place details for '' @ pid)), svc1, s1)))"

definition search_request_params :: "string \<Rightarrow> 'c Coordinates_scheme \<Rightarrow> search_filters option \<Rightarrow> search_params" where
  "search_request_params query loc filters =
     \<lparr>q_term = query,
      q_latitude = lat loc,
      q_longitude = lng loc,
      q_limit =
        (case Option.bind filters f_limit of
           Some n \<Rightarrow> (if n \<noteq> 0 then n else 20)
         | None \<Rightarrow> 20),
      q_categories =
        (case Option.bind filters f_categories of
           Some cs \<Rightarrow> (if length cs > 0 then Some (join '','' cs) else None)
         | None \<Rightarrow> None),
      q_price =
        (case Option.bind filters f_price of
           Some ps \<Rightarrow> (if length ps > 0 then Some (join '','' ps) else None)
         | None \<Rightarrow> None),
      q_radius =
        (case Option.bind filters f_radius of
           Some r \<Rightarrow> (if r \<noteq> 0 then Some r else None)
         | None \<Rightarrow> None)\<rparr>"

definition searchPlaces ::
    "'w runtime \<Rightarrow> YelpService \<Rightarrow> string \<Rightarrow> Coordinates \<Rightarrow> search_filters option \<Rightarrow> 'w sys
      \<Rightarrow> (thrown + cached_value) \<times> YelpService \<times> 'w sys" where
  "searchPlaces rt svc query loc filters s =
     (let cacheKey = generateCacheKey rt ''search'' (SearchParams query loc filters)
      in case getFromCache rt svc cacheKey s of
           (Some cached, svc1) \<Rightarrow> (Inr cached, svc1, s)
         | (None, svc1) \<Rightarrow>
             (let params = search_request_params query loc filters
              in case retryRequest rt (search_get rt (client svc1) ''/v3/businesses/search'' params) 3 s of
                   (Inr resp, s1) \<Rightarrow>
                     (let places = PlacesValue (map formatSearchResult (businesses resp))
                      in (Inr places, setCache rt svc1 cacheKey places s1, s1))
                 | (Inl err, s1) \<Rightarrow>
                     (Inl (handleError err ''Failed to search places''), svc1, s1)))"


section \<open>Notions used to state the properties\<close>

text \<open>
  The size a pattern proposes for a text: the integer captured by its leftmost match.
\<close>

definition captured_size :: "regex \<Rightarrow> string \<Rightarrow> number option" where
  "captured_size pattern text =
     (case match text pattern of Some (Some m1) \<Rightarrow> parseInt m1 | _ \<Rightarrow> None)"

text \<open>
  A pattern proposes a size for a text when its captured integer lies in \<open>(0, 100]\<close>.
\<close>

definition proposes :: "regex \<Rightarrow> string \<Rightarrow> number \<Rightarrow> bool" where
  "proposes pattern text n = (captured_size pattern text = Some n \<and> 0 < n \<and> n \<le> 100)"

definition solo_phrases :: "string list" where
  "solo_phrases = [''just me'', ''by myself'', ''solo'', ''just for me'']"

text \<open>
  A failure that is a server error, a timeout or a transport failure: it carries no HTTP
  status, or a status of 500 or more.
\<close>

definition retryable :: "thrown \<Rightarrow> bool" where
  "retryable err = (case err of AxiosError m (Some r) \<Rightarrow> status r \<ge> 500 | _ \<Rightarrow> True)"

definition requests :: "event list \<Rightarrow> nat" where
  "requests evs = length (filter (\<lambda>e. e = Request) evs)"

text \<open>An invocation of the client: the operation and its parameters.\<close>

datatype operation =
  Chat string "message list option" "ConversationContext option"
| Details string
| Search string Coordinates "search_filters option"

definition operation_key :: "'w runtime \<Rightarrow> operation \<Rightarrow> string" where
  "operation_key rt op =
     (case op of
        Chat msg h context \<Rightarrow> generateCacheKey rt ''chat'' (ChatParams msg context)
      | Details pid \<Rightarrow> generateCacheKey rt ''place'' (PlaceParams pid)
      | Search query loc filters \<Rightarrow> generateCacheKey rt ''search'' (SearchParams query loc filters))"

definition run_operation ::
    "'w runtime \<Rightarrow> YelpService \<Rightarrow> operation \<Rightarrow> 'w sys
      \<Rightarrow> (thrown + cached_value) \<times> YelpService \<times> 'w sys" where
  "run_operation rt svc op s =
     (case op of
        Chat msg h context \<Rightarrow> sendChatMessage rt svc msg h context s
      | Details pid \<Rightarrow> getPlaceDetails rt svc pid s
      | Search query loc filters \<Rightarrow> searchPlaces rt svc query loc filters s)"

text \<open>The context string an operation hands to the error normalisation.\<close>

definition operation_context :: "operation \<Rightarrow> string" where
  "operation_context op =
     (case op of
        Chat msg h context \<Rightarrow> ''Failed to send chat message''
      | Details pid \<Rightarrow> ''Failed to get place details for '' @ pid
      | Search query loc filters \<Rightarrow> ''Failed to search places'')"

text \<open>
  The value the retry wrapper throws when the operation sends its request from the state
  \<open>s\<close>, if it throws one.
\<close>

definition thrown_of :: "(thrown + 'a) \<times> 's \<Rightarrow> thrown option" where
  "thrown_of outcome = (case fst outcome of Inl err \<Rightarrow> Some err | Inr d \<Rightarrow> None)"

definition wrapper_failure ::
    "'w runtime \<Rightarrow> YelpService \<Rightarrow> operation \<Rightarrow> 'w sys \<Rightarrow> thrown option" where
  "wrapper_failure rt svc op s =
     (case op of
        Chat msg h context \<Rightarrow>
          thrown_of (retryRequest rt
            (chat_post rt (client svc) ''/v2/ai/chat''
               (chat_request msg (case h of None \<Rightarrow> [] | Some x \<Rightarrow> x) context)) 3 s)
      | Details pid \<Rightarrow>
          thrown_of (retryRequest rt (details_get rt (client svc) (''/v3/businesses/'' @ pid)) 3 s)
      | Search query loc filters \<Rightarrow>
          thrown_of (retryRequest rt
            (search_get rt (client svc) ''/v3/businesses/search''
               (search_request_params query loc filters)) 3 s))"

text \<open>
  A failure that none of the four special cases of the error normalisation covers: not an
  error of the HTTP library, or one without a response, or one whose status is below 500
  and neither 401 nor 429 and whose body has no \<open>error\<close> member.
\<close>

definition unclassified :: "thrown \<Rightarrow> bool" where
  "unclassified err =
     (case err of
        AxiosError m (Some r) \<Rightarrow>
          status r < 500 \<and> status r \<noteq> 401 \<and> status r \<noteq> 429 \<and>
          (case data r of None \<Rightarrow> True | Some d \<Rightarrow> body_error d = None)
      | _ \<Rightarrow> True)"

section \<open>A simulated runtime for concrete runs\<close>

text \<open>
  The world is the clock in milliseconds and the number of requests answered so far.
  The chat endpoint answers its \<open>n\<close>-th request as the script says; the weather
  endpoint times out; the details endpoint answers 404; the search endpoint finds
  nothing.
\<close>

definition sim_stringify :: "cache_params \<Rightarrow> string" where
  "sim_stringify p =
     (case p of
        ChatParams msg context \<Rightarrow> ''[chat]'' @ msg
      | PlaceParams pid \<Rightarrow> ''[place]'' @ pid
      | SearchParams query loc filters \<Rightarrow> ''[search]'' @ query)"

definition sim_runtime :: "(nat \<Rightarrow> thrown + YelpChatResponse) \<Rightarrow> (int \<times> nat) runtime" where
  "sim_runtime script =
     \<lparr>date_now = fst,
      new_Date =
        (\<lambda>w. \<lparr>epoch_ms = fst w, getHours = nat ((fst w div 3600000) mod 24),
               weekday_long = ''Thursday''\<rparr>),
      wait_ms = (\<lambda>ms w. (fst w + int ms, snd w)),
      JSON_stringify = sim_stringify,
      weather_get =
        (\<lambda>cfg url p w.
           (Inl (AxiosError ''timeout of 5000ms exceeded'' None), (fst w + 5000, Suc (snd w)))),
      chat_post = (\<lambda>cfg url req w. (script (snd w), (fst w + 120, Suc (snd w)))),
      details_get =
        (\<lambda>cfg url w.
           (Inl (AxiosError ''Request failed with status code 404''
                   (Some \<lparr>status = 404, data = None\<rparr>)),
            (fst w + 80, Suc (snd w)))),
      search_get = (\<lambda>cfg url p w. (Inr \<lparr>businesses = []\<rparr>, (fst w + 90, Suc (snd w))))\<rparr>"

definition sim_start :: "int \<Rightarrow> (int \<times> nat) sys" where
  "sim_start t = \<lparr>world = (t, 0), trace = []\<rparr>"

definition sim_service :: YelpService where
  "sim_service =
     \<lparr>client = \<lparr>baseURL = ''https://api.yelp.com'',
                 headers = [(''Authorization'', ''Bearer k''),
                            (''Content-Type'', ''application/json'')],
                 timeout = 10000\<rparr>,
      cache = Map.empty\<rparr>"

definition sim_503 :: thrown where
  "sim_503 = AxiosError ''Request failed with status code 503'' (Some \<lparr>status = 503, data = None\<rparr>)"

definition sim_404 :: thrown where
  "sim_404 = AxiosError ''Request failed with status code 404'' (Some \<lparr>status = 404, data = None\<rparr>)"

definition sim_failure :: "nat \<Rightarrow> string option \<Rightarrow> thrown" where
  "sim_failure code dsc =
     AxiosError ''Request failed''
       (Some \<lparr>status = code,
              data = Some \<lparr>body_error =
                       Some \<lparr>err_code = Some ''VALIDATION_ERROR'', err_description = dsc\<rparr>\<rparr>\<rparr>)"

definition sim_reply :: YelpChatResponse where
  "sim_reply = \<lparr>response = ''Try Luigi'', recommendations = None\<rparr>"


definition sim_recommendation :: yelp_recommendation where
  "sim_recommendation =
     \<lparr>place_id = ''luigi-pizza-sf'', rec_name = ''Luigi Pizza'', rec_rating = 4.5,
      rec_coordinates = \<lparr>lat = 37.77, lng = - 122.41\<rparr>, relevance_score = 0.9,
      rec_reasoning = Some ''cozy'', rec_address = None, rec_categories = None,
      rec_photos = None, rec_phone = None, rec_hours = None, price_range = None\<rparr>"

definition sim_reply_with :: YelpChatResponse where
  "sim_reply_with = \<lparr>response = ''Try Luigi'', recommendations = Some [sim_recommendation]\<rparr>"

definition sim_address :: yelp_location where
  "sim_address = \<lparr>address1 = ''1 Pole Rd'', city = ''Alert'', state = ''NU'', zip_code = ''X0A''\<rparr>"

definition sim_details :: YelpPlaceDetailsResponse where
  "sim_details =
     \<lparr>d_id = ''north'', d_name = ''North Pole Cafe'', d_rating = 5,
      d_coordinates = \<lparr>latitude = 90, longitude = - 180\<rparr>, d_location = sim_address,
      d_categories = [\<lparr>title = ''Cafe''\<rparr>], d_photos = None, d_phone = None,
      d_hours = None, d_price = None\<rparr>"

definition sim_business :: yelp_business where
  "sim_business =
     \<lparr>b_id = ''origin'', b_name = ''Null Island Grill'', b_rating = 3,
      b_coordinates = \<lparr>latitude = 0, longitude = 0\<rparr>, b_location = sim_address,
      b_categories = [], image_url = [], b_phone = None, b_price = None\<rparr>"

definition sim_user :: "string \<Rightarrow> message" where
  "sim_user txt = \<lparr>role = User, content = txt, msg_timestamp = 0\<rparr>"

definition sim_place :: LocationContext where
  "sim_place = \<lparr>lat = 37.7749, lng = - 122.4194, loc_name = Some ''San Francisco''\<rparr>"

section \<open>The retry wrapper\<close>

lemma retryable_not_client: "retryable err \<Longrightarrow> \<not> is_client_error err"
  by (auto simp: retryable_def is_client_error_def split: thrown.splits option.splits)

lemma retry_client_error:
  assumes "requestFn (world s) = (Inl err, w1)" "is_client_error err"
  shows "retryRequest rt requestFn 3 s = (Inl err, s\<lparr>world := w1, trace := trace s @ [Request]\<rparr>)"
  using assms by (simp add: retryRequest_def retry_loop.simps[of _ _ 3 0] invoke_def)

lemma retry_exhausted:
  assumes "requestFn (world s) = (Inl e1, w1)" "\<not> is_client_error e1"
     "requestFn (wait_ms rt 1000 w1) = (Inl e2, w2)" "\<not> is_client_error e2"
     "requestFn (wait_ms rt 2000 w2) = (Inl e3, w3)" "\<not> is_client_error e3"
  shows "retryRequest rt requestFn 3 s =
     (Inl e3, s\<lparr>world := w3, trace := trace s @ [Request, Sleep 1000, Request, Sleep 2000, Request]\<rparr>)"
  using assms
  by (simp add: retryRequest_def retry_loop.simps[of _ _ 3 0] retry_loop.simps[of _ _ 3 1]
      retry_loop.simps[of _ _ 3 2]  retry_loop.simps[of _ _ 3 3] invoke_def sleep_def)

lemma retry_second_succeeds:
  assumes "requestFn (world s) = (Inl e1, w1)" "\<not> is_client_error e1"
     "requestFn (wait_ms rt 1000 w1) = (Inr d, w2)"
  shows "retryRequest rt requestFn 3 s =
     (Inr d, s\<lparr>world := w2, trace := trace s @ [Request, Sleep 1000, Request]\<rparr>)"
  using assms
  by (simp add: retryRequest_def retry_loop.simps[of _ _ 3 0] retry_loop.simps[of _ _ 3 1]
      invoke_def sleep_def)

lemma retry_third_succeeds:
  assumes "requestFn (world s) = (Inl e1, w1)" "\<not> is_client_error e1"
     "requestFn (wait_ms rt 1000 w1) = (Inl e2, w2)" "\<not> is_client_error e2"
     "requestFn (wait_ms rt 2000 w2) = (Inr d, w3)"
  shows "retryRequest rt requestFn 3 s =
     (Inr d, s\<lparr>world := w3, trace := trace s @ [Request, Sleep 1000, Request, Sleep 2000, Request]\<rparr>)"
  using assms
  by (simp add: retryRequest_def retry_loop.simps[of _ _ 3 0] retry_loop.simps[of _ _ 3 1]
      retry_loop.simps[of _ _ 3 2] invoke_def sleep_def)

lemma retry_first_succeeds:
  assumes "requestFn (world s) = (Inr d, w1)"
  shows "retryRequest rt requestFn 3 s = (Inr d, s\<lparr>world := w1, trace := trace s @ [Request]\<rparr>)"
  using assms by (simp add: retryRequest_def retry_loop.simps[of _ _ 3 0] invoke_def)

lemma retry_second_client_error:
  assumes "requestFn (world s) = (Inl e1, w1)" "\<not> is_client_error e1"
     "requestFn (wait_ms rt 1000 w1) = (Inl e2, w2)" "is_client_error e2"
  shows "retryRequest rt requestFn 3 s =
     (Inl e2, s\<lparr>world := w2, trace := trace s @ [Request, Sleep 1000, Request]\<rparr>)"
  using assms
  by (simp add: retryRequest_def retry_loop.simps[of _ _ 3 0] retry_loop.simps[of _ _ 3 1]
      invoke_def sleep_def)

lemma retry_third_client_error:
  assumes "requestFn (world s) = (Inl e1, w1)" "\<not> is_client_error e1"
     "requestFn (wait_ms rt 1000 w1) = (Inl e2, w2)" "\<not> is_client_error e2"
     "requestFn (wait_ms rt 2000 w2) = (Inl e3, w3)" "is_client_error e3"
  shows "retryRequest rt requestFn 3 s =
     (Inl e3, s\<lparr>world := w3, trace := trace s @ [Request, Sleep 1000, Request, Sleep 2000, Request]\<rparr>)"
  using assms
  by (simp add: retryRequest_def retry_loop.simps[of _ _ 3 0] retry_loop.simps[of _ _ 3 1]
      retry_loop.simps[of _ _ 3 2] invoke_def sleep_def)

text \<open>
  Whatever the request function does, the loop started at attempt \<open>a\<close> with a budget of
  \<open>n\<close> only appends to the trace, sends at most \<open>n - a\<close> requests, and sends one first
  when \<open>a < n\<close>.
\<close>

lemma retry_loop_trace:
  "retry_loop rt f n a le s = (r, s') \<Longrightarrow>
     \<exists>tr. trace s' = trace s @ tr \<and> requests tr \<le> n - a \<and> (a < n \<longrightarrow> tr \<noteq> [] \<and> hd tr = Request)"
proof (induction rt f n a le s arbitrary: r s' rule: retry_loop.induct)
  case (1 rt f n a le s)
  show ?case
  proof (cases "a < n")
    case False
    with "1.prems" show ?thesis by (simp add: retry_loop.simps[of _ _ n a] requests_def)
  next
    case True
    obtain x w1 where fx: "f (world s) = (x, w1)" by (cases "f (world s)")
    let ?s1 = "s\<lparr>world := w1, trace := trace s @ [Request]\<rparr>"
    have inv: "invoke f s = (x, ?s1)" by (simp add: invoke_def fx)
    show ?thesis
    proof (cases x)
      case (Inr d)
      with "1.prems" True inv have "s' = ?s1"
        by (simp add: retry_loop.simps[of _ _ n a])
      with True show ?thesis by (simp add: requests_def)
    next
      case (Inl err)
      show ?thesis
      proof (cases "is_client_error err")
        case True
        with "1.prems" \<open>a < n\<close> inv Inl have "s' = ?s1"
          by (simp add: retry_loop.simps[of _ _ n a])
        with \<open>a < n\<close> show ?thesis by (simp add: requests_def)
      next
        case nc: False
        show ?thesis
        proof (cases "a < n - 1")
          case True
          let ?s2 = "sleep rt (2 ^ a * 1000) ?s1"
          from "1.prems" \<open>a < n\<close> inv Inl nc True
          have rec: "retry_loop rt f n (a + 1) (Some err) ?s2 = (r, s')"
            by (simp add: retry_loop.simps[of _ _ n a])
          from "1.IH"(1)[OF \<open>a < n\<close> inv[symmetric] Inl nc True rec]
          obtain tr where tr: "trace s' = trace ?s2 @ tr" "requests tr \<le> n - (a + 1)" by blast
          have "trace s' = trace s @ (Request # Sleep (2 ^ a * 1000) # tr)"
            using tr(1) by (simp add: sleep_def)
          moreover have "requests (Request # Sleep (2 ^ a * 1000) # tr) \<le> n - a"
            using tr(2) \<open>a < n\<close> by (simp add: requests_def)
          ultimately show ?thesis by (metis list.sel(1) list.distinct(1))
        next
          case False
          from "1.prems" \<open>a < n\<close> inv Inl nc False
          have rec: "retry_loop rt f n (a + 1) (Some err) ?s1 = (r, s')"
            by (simp add: retry_loop.simps[of _ _ n a])
          from "1.IH"(2)[OF \<open>a < n\<close> inv[symmetric] Inl nc False rec]
          obtain tr where tr: "trace s' = trace ?s1 @ tr" "requests tr \<le> n - (a + 1)" by blast
          have "trace s' = trace s @ (Request # tr)"
            using tr(1) by simp
          moreover have "requests (Request # tr) \<le> n - a"
            using tr(2) \<open>a < n\<close> by (simp add: requests_def)
          ultimately show ?thesis by (metis list.sel(1) list.distinct(1))
        qed
      qed
    qed
  qed
qed

lemma retryRequest_trace:
  assumes "retryRequest rt f 3 s = (r, s')"
  shows "\<exists>tr. trace s' = trace s @ Request # tr \<and> requests (Request # tr) \<le> 3"
proof -
  from retry_loop_trace[OF assms[unfolded retryRequest_def]]
  obtain tr where "trace s' = trace s @ tr" "requests tr \<le> 3" "tr \<noteq> []" "hd tr = Request"
    by auto
  then show ?thesis by (cases tr) auto
qed

text \<open>
  Claim C2. For every request function passed to the retry wrapper with the budget of 3
  that every operation uses: a failure that carries an HTTP status below 500 is thrown
  right after the first attempt, with no delay and no further attempt; when the attempts
  fail with no status or a status of 500 or more, the wrapper waits 1000 ms after the
  first failure and 2000 ms after the second, and throws the third failure, the last one;
  an attempt that succeeds after one or two such failures ends the run with its data,
  after the same delays; and no run sends more than 3 requests. A failure with a status
  below 500 at the second or the third attempt is thrown at once as well, with no delay
  and no attempt after it, and a first attempt that succeeds ends the run with its data
  after that one request: the statement fixes the result, the world and the trace of
  every run whose failures are of these two kinds.
\<close>

theorem retryRequest_policy:
  fixes rt :: "'w runtime" and requestFn :: "'w \<Rightarrow> (thrown + 'a) \<times> 'w"
  shows
  "(requestFn (world s) = (Inl (AxiosError m (Some r)), w) \<and> 0 < status r \<and> status r < 500 \<longrightarrow>
      retryRequest rt requestFn 3 s =
        (Inl (AxiosError m (Some r)), s\<lparr>world := w, trace := trace s @ [Request]\<rparr>)) \<and>
   (requestFn (world s) = (Inl e1, w1) \<and> retryable e1 \<and>
    requestFn (wait_ms rt 1000 w1) = (Inl e2, w2) \<and> retryable e2 \<and>
    requestFn (wait_ms rt 2000 w2) = (Inl e3, w3) \<and> retryable e3 \<longrightarrow>
      retryRequest rt requestFn 3 s =
        (Inl e3, s\<lparr>world := w3,
                   trace := trace s @ [Request, Sleep 1000, Request, Sleep 2000, Request]\<rparr>)) \<and>
   (requestFn (world s) = (Inl e1, w1) \<and> retryable e1 \<and>
    requestFn (wait_ms rt 1000 w1) = (Inr d2, w2) \<longrightarrow>
      retryRequest rt requestFn 3 s =
        (Inr d2, s\<lparr>world := w2, trace := trace s @ [Request, Sleep 1000, Request]\<rparr>)) \<and>
   (requestFn (world s) = (Inl e1, w1) \<and> retryable e1 \<and>
    requestFn (wait_ms rt 1000 w1) = (Inl e2, w2) \<and> retryable e2 \<and>
    requestFn (wait_ms rt 2000 w2) = (Inr d3, w3) \<longrightarrow>
      retryRequest rt requestFn 3 s =
        (Inr d3, s\<lparr>world := w3,
                   trace := trace s @ [Request, Sleep 1000, Request, Sleep 2000, Request]\<rparr>)) \<and>
   (requestFn (world s) = (Inl e1, w1) \<and> retryable e1 \<and>
    requestFn (wait_ms rt 1000 w1) = (Inl (AxiosError m2 (Some r2)), w2) \<and>
    0 < status r2 \<and> status r2 < 500 \<longrightarrow>
      retryRequest rt requestFn 3 s =
        (Inl (AxiosError m2 (Some r2)),
         s\<lparr>world := w2, trace := trace s @ [Request, Sleep 1000, Request]\<rparr>)) \<and>
   (requestFn (world s) = (Inl e1, w1) \<and> retryable e1 \<and>
    requestFn (wait_ms rt 1000 w1) = (Inl e2, w2) \<and> retryable e2 \<and>
    requestFn (wait_ms rt 2000 w2) = (Inl (AxiosError m3 (Some r3)), w3) \<and>
    0 < status r3 \<and> status r3 < 500 \<longrightarrow>
      retryRequest rt requestFn 3 s =
        (Inl (AxiosError m3 (Some r3)),
         s\<lparr>world := w3,
           trace := trace s @ [Request, Sleep 1000, Request, Sleep 2000, Request]\<rparr>)) \<and>
   (requestFn (world s) = (Inr d1, w1) \<longrightarrow>
      retryRequest rt requestFn 3 s =
        (Inr d1, s\<lparr>world := w1, trace := trace s @ [Request]\<rparr>)) \<and>
   (\<exists>tr. trace (snd (retryRequest rt requestFn 3 s)) = trace s @ Request # tr \<and>
         requests (Request # tr) \<le> 3)"
proof (intro conjI impI)
  assume a: "requestFn (world s) = (Inl (AxiosError m (Some r)), w) \<and> 0 < status r \<and> status r < 500"
  then have "is_client_error (AxiosError m (Some r))" by (simp add: is_client_error_def)
  with a show "retryRequest rt requestFn 3 s =
        (Inl (AxiosError m (Some r)), s\<lparr>world := w, trace := trace s @ [Request]\<rparr>)"
    by (simp add: retry_client_error)
next
  assume a: "requestFn (world s) = (Inl e1, w1) \<and> retryable e1 \<and>
    requestFn (wait_ms rt 1000 w1) = (Inl e2, w2) \<and> retryable e2 \<and>
    requestFn (wait_ms rt 2000 w2) = (Inl e3, w3) \<and> retryable e3"
  then show "retryRequest rt requestFn 3 s =
        (Inl e3, s\<lparr>world := w3,
                   trace := trace s @ [Request, Sleep 1000, Request, Sleep 2000, Request]\<rparr>)"
    using retry_exhausted[of requestFn s e1 w1 rt e2 w2 e3 w3] by (simp add: retryable_not_client)
next
  assume a: "requestFn (world s) = (Inl e1, w1) \<and> retryable e1 \<and>
    requestFn (wait_ms rt 1000 w1) = (Inr d2, w2)"
  then show "retryRequest rt requestFn 3 s =
        (Inr d2, s\<lparr>world := w2, trace := trace s @ [Request, Sleep 1000, Request]\<rparr>)"
    using retry_second_succeeds[of requestFn s e1 w1 rt d2 w2] by (simp add: retryable_not_client)
next
  assume a: "requestFn (world s) = (Inl e1, w1) \<and> retryable e1 \<and>
    requestFn (wait_ms rt 1000 w1) = (Inl e2, w2) \<and> retryable e2 \<and>
    requestFn (wait_ms rt 2000 w2) = (Inr d3, w3)"
  then show "retryRequest rt requestFn 3 s =
        (Inr d3, s\<lparr>world := w3,
                   trace := trace s @ [Request, Sleep 1000, Request, Sleep 2000, Request]\<rparr>)"
    using retry_third_succeeds[of requestFn s e1 w1 rt e2 w2 d3 w3] by (simp add: retryable_not_client)
next
  assume a: "requestFn (world s) = (Inl e1, w1) \<and> retryable e1 \<and>
    requestFn (wait_ms rt 1000 w1) = (Inl (AxiosError m2 (Some r2)), w2) \<and>
    0 < status r2 \<and> status r2 < 500"
  then have "is_client_error (AxiosError m2 (Some r2))" by (simp add: is_client_error_def)
  with a show "retryRequest rt requestFn 3 s =
        (Inl (AxiosError m2 (Some r2)),
         s\<lparr>world := w2, trace := trace s @ [Request, Sleep 1000, Request]\<rparr>)"
    using retry_second_client_error[of requestFn s e1 w1 rt "AxiosError m2 (Some r2)" w2]
    by (simp add: retryable_not_client)
next
  assume a: "requestFn (world s) = (Inl e1, w1) \<and> retryable e1 \<and>
    requestFn (wait_ms rt 1000 w1) = (Inl e2, w2) \<and> retryable e2 \<and>
    requestFn (wait_ms rt 2000 w2) = (Inl (AxiosError m3 (Some r3)), w3) \<and>
    0 < status r3 \<and> status r3 < 500"
  then have "is_client_error (AxiosError m3 (Some r3))" by (simp add: is_client_error_def)
  with a show "retryRequest rt requestFn 3 s =
        (Inl (AxiosError m3 (Some r3)),
         s\<lparr>world := w3,
           trace := trace s @ [Request, Sleep 1000, Request, Sleep 2000, Request]\<rparr>)"
    using retry_third_client_error[of requestFn s e1 w1 rt e2 w2 "AxiosError m3 (Some r3)" w3]
    by (simp add: retryable_not_client)
next
  assume "requestFn (world s) = (Inr d1, w1)"
  then show "retryRequest rt requestFn 3 s =
        (Inr d1, s\<lparr>world := w1, trace := trace s @ [Request]\<rparr>)"
    by (rule retry_first_succeeds)
next
  obtain r' s' where "retryRequest rt requestFn 3 s = (r', s')"
    by (cases "retryRequest rt requestFn 3 s")
  from retryRequest_trace[OF this] this
  show "\<exists>tr. trace (snd (retryRequest rt requestFn 3 s)) = trace s @ Request # tr \<and>
         requests (Request # tr) \<le> 3" by simp
qed

theorem retryRequest_policy_witness:
  "retryRequest (sim_runtime (\<lambda>n. Inl sim_404))
       (chat_post (sim_runtime (\<lambda>n. Inl sim_404)) (client sim_service) ''/v2/ai/chat''
          \<lparr>req_message = ''hi'', req_context = None, conversation_history = []\<rparr>) 3 (sim_start 0)
     = (Inl sim_404, \<lparr>world = (120, 1), trace = [Request]\<rparr>) \<and>
   retryRequest (sim_runtime (\<lambda>n. Inl sim_503))
       (chat_post (sim_runtime (\<lambda>n. Inl sim_503)) (client sim_service) ''/v2/ai/chat''
          \<lparr>req_message = ''hi'', req_context = None, conversation_history = []\<rparr>) 3 (sim_start 0)
     = (Inl sim_503, \<lparr>world = (3360, 3), trace = [Request, Sleep 1000, Request, Sleep 2000, Request]\<rparr>) \<and>
   retryRequest (sim_runtime (\<lambda>n. if n < 1 then Inl sim_503 else Inr sim_reply))
       (chat_post (sim_runtime (\<lambda>n. if n < 1 then Inl sim_503 else Inr sim_reply))
          (client sim_service) ''/v2/ai/chat''
          \<lparr>req_message = ''hi'', req_context = None, conversation_history = []\<rparr>) 3 (sim_start 0)
     = (Inr sim_reply, \<lparr>world = (1240, 2), trace = [Request, Sleep 1000, Request]\<rparr>) \<and>
   retryRequest (sim_runtime (\<lambda>n. if n < 2 then Inl sim_503 else Inr sim_reply))
       (chat_post (sim_runtime (\<lambda>n. if n < 2 then Inl sim_503 else Inr sim_reply))
          (client sim_service) ''/v2/ai/chat''
          \<lparr>req_message = ''hi'', req_context = None, conversation_history = []\<rparr>) 3 (sim_start 0)
     = (Inr sim_reply, \<lparr>world = (3360, 3), trace = [Request, Sleep 1000, Request, Sleep 2000, Request]\<rparr>) \<and>
   retryRequest (sim_runtime (\<lambda>n. if n < 1 then Inl sim_503 else Inl sim_404))
       (chat_post (sim_runtime (\<lambda>n. if n < 1 then Inl sim_503 else Inl sim_404))
          (client sim_service) ''/v2/ai/chat''
          \<lparr>req_message = ''hi'', req_context = None, conversation_history = []\<rparr>) 3 (sim_start 0)
     = (Inl sim_404, \<lparr>world = (1240, 2), trace = [Request, Sleep 1000, Request]\<rparr>) \<and>
   retryRequest (sim_runtime (\<lambda>n. if n < 2 then Inl sim_503 else Inl sim_404))
       (chat_post (sim_runtime (\<lambda>n. if n < 2 then Inl sim_503 else Inl sim_404))
          (client sim_service) ''/v2/ai/chat''
          \<lparr>req_message = ''hi'', req_context = None, conversation_history = []\<rparr>) 3 (sim_start 0)
     = (Inl sim_404, \<lparr>world = (3360, 3), trace = [Request, Sleep 1000, Request, Sleep 2000, Request]\<rparr>) \<and>
   retryRequest (sim_runtime (\<lambda>n. Inr sim_reply))
       (chat_post (sim_runtime (\<lambda>n. Inr sim_reply)) (client sim_service) ''/v2/ai/chat''
          \<lparr>req_message = ''hi'', req_context = None, conversation_history = []\<rparr>) 3 (sim_start 0)
     = (Inr sim_reply, \<lparr>world = (120, 1), trace = [Request]\<rparr>)"
proof (intro conjI)
  let ?rt = "sim_runtime (\<lambda>n. Inl sim_404)"
  let ?f = "chat_post ?rt (client sim_service) ''/v2/ai/chat''
          \<lparr>req_message = ''hi'', req_context = None, conversation_history = []\<rparr>"
  from retryRequest_policy[where requestFn = ?f and s = "sim_start 0" and rt = ?rt
        and m = "''Request failed with status code 404''"
        and r = "\<lparr>status = 404, data = None\<rparr>" and w = "(120, 1)", THEN conjunct1]
  show "retryRequest ?rt ?f 3 (sim_start 0) = (Inl sim_404, \<lparr>world = (120, 1), trace = [Request]\<rparr>)"
    by (simp add: sim_runtime_def sim_start_def sim_404_def)
next
  let ?rt = "sim_runtime (\<lambda>n. Inl sim_503)"
  let ?f = "chat_post ?rt (client sim_service) ''/v2/ai/chat''
          \<lparr>req_message = ''hi'', req_context = None, conversation_history = []\<rparr>"
  from retryRequest_policy[where requestFn = ?f and s = "sim_start 0" and rt = ?rt
        and ?e1.0 = sim_503 and ?w1.0 = "(120, 1)" and ?e2.0 = sim_503 and ?w2.0 = "(1240, 2)"
        and ?e3.0 = sim_503 and ?w3.0 = "(3360, 3)", THEN conjunct2, THEN conjunct1]
  show "retryRequest ?rt ?f 3 (sim_start 0) =
      (Inl sim_503, \<lparr>world = (3360, 3), trace = [Request, Sleep 1000, Request, Sleep 2000, Request]\<rparr>)"
    by (simp add: sim_runtime_def sim_start_def sim_503_def retryable_def)
next
  let ?rt = "sim_runtime (\<lambda>n. if n < 1 then Inl sim_503 else Inr sim_reply)"
  let ?f = "chat_post ?rt (client sim_service) ''/v2/ai/chat''
          \<lparr>req_message = ''hi'', req_context = None, conversation_history = []\<rparr>"
  from retryRequest_policy[where requestFn = ?f and s = "sim_start 0" and rt = ?rt
        and ?e1.0 = sim_503 and ?w1.0 = "(120, 1)" and ?d2.0 = sim_reply and ?w2.0 = "(1240, 2)",
        THEN conjunct2, THEN conjunct2, THEN conjunct1]
  show "retryRequest ?rt ?f 3 (sim_start 0) =
      (Inr sim_reply, \<lparr>world = (1240, 2), trace = [Request, Sleep 1000, Request]\<rparr>)"
    by (simp add: sim_runtime_def sim_start_def sim_503_def retryable_def)
next
  let ?rt = "sim_runtime (\<lambda>n. if n < 2 then Inl sim_503 else Inr sim_reply)"
  let ?f = "chat_post ?rt (client sim_service) ''/v2/ai/chat''
          \<lparr>req_message = ''hi'', req_context = None, conversation_history = []\<rparr>"
  from retryRequest_policy[where requestFn = ?f and s = "sim_start 0" and rt = ?rt
        and ?e1.0 = sim_503 and ?w1.0 = "(120, 1)" and ?e2.0 = sim_503 and ?w2.0 = "(1240, 2)"
        and ?d3.0 = sim_reply and ?w3.0 = "(3360, 3)",
        THEN conjunct2, THEN conjunct2, THEN conjunct2, THEN conjunct1]
  show "retryRequest ?rt ?f 3 (sim_start 0) =
      (Inr sim_reply, \<lparr>world = (3360, 3), trace = [Request, Sleep 1000, Request, Sleep 2000, Request]\<rparr>)"
    by (simp add: sim_runtime_def sim_start_def sim_503_def retryable_def)
next
  let ?rt = "sim_runtime (\<lambda>n. if n < 1 then Inl sim_503 else Inl sim_404)"
  let ?f = "chat_post ?rt (client sim_service) ''/v2/ai/chat''
          \<lparr>req_message = ''hi'', req_context = None, conversation_history = []\<rparr>"
  from retryRequest_policy[where requestFn = ?f and s = "sim_start 0" and rt = ?rt
        and ?e1.0 = sim_503 and ?w1.0 = "(120, 1)"
        and ?m2.0 = "''Request failed with status code 404''"
        and ?r2.0 = "\<lparr>status = 404, data = None\<rparr>" and ?w2.0 = "(1240, 2)",
        THEN conjunct2, THEN conjunct2, THEN conjunct2, THEN conjunct2, THEN conjunct1]
  show "retryRequest ?rt ?f 3 (sim_start 0) =
      (Inl sim_404, \<lparr>world = (1240, 2), trace = [Request, Sleep 1000, Request]\<rparr>)"
    by (simp add: sim_runtime_def sim_start_def sim_503_def sim_404_def retryable_def)
next
  let ?rt = "sim_runtime (\<lambda>n. if n < 2 then Inl sim_503 else Inl sim_404)"
  let ?f = "chat_post ?rt (client sim_service) ''/v2/ai/chat''
          \<lparr>req_message = ''hi'', req_context = None, conversation_history = []\<rparr>"
  from retryRequest_policy[where requestFn = ?f and s = "sim_start 0" and rt = ?rt
        and ?e1.0 = sim_503 and ?w1.0 = "(120, 1)" and ?e2.0 = sim_503 and ?w2.0 = "(1240, 2)"
        and ?m3.0 = "''Request failed with status code 404''"
        and ?r3.0 = "\<lparr>status = 404, data = None\<rparr>" and ?w3.0 = "(3360, 3)",
        THEN conjunct2, THEN conjunct2, THEN conjunct2, THEN conjunct2, THEN conjunct2,
        THEN conjunct1]
  show "retryRequest ?rt ?f 3 (sim_start 0) =
      (Inl sim_404, \<lparr>world = (3360, 3), trace = [Request, Sleep 1000, Request, Sleep 2000, Request]\<rparr>)"
    by (simp add: sim_runtime_def sim_start_def sim_503_def sim_404_def retryable_def)
next
  let ?rt = "sim_runtime (\<lambda>n. Inr sim_reply)"
  let ?f = "chat_post ?rt (client sim_service) ''/v2/ai/chat''
          \<lparr>req_message = ''hi'', req_context = None, conversation_history = []\<rparr>"
  from retryRequest_policy[where requestFn = ?f and s = "sim_start 0" and rt = ?rt
        and ?d1.0 = sim_reply and ?w1.0 = "(120, 1)",
        THEN conjunct2, THEN conjunct2, THEN conjunct2, THEN conjunct2, THEN conjunct2,
        THEN conjunct2, THEN conjunct1]
  show "retryRequest ?rt ?f 3 (sim_start 0) =
      (Inr sim_reply, \<lparr>world = (120, 1), trace = [Request]\<rparr>)"
    by (simp add: sim_runtime_def sim_start_def)
qed


section \<open>The cache of the operations\<close>


lemma getFromCache_miss:
  assumes "cache svc k = None \<or> (\<exists>e. cache svc k = Some e \<and> date_now rt (world s) - entry_timestamp e > CACHE_TTL)"
  shows "\<exists>svc1. getFromCache rt svc k s = (None, svc1) \<and> client svc1 = client svc"
  using assms by (auto simp: getFromCache_def Let_def)







section \<open>Error normalisation\<close>

text \<open>
  Claim C4 says that a failure outside the four special cases surfaces the original
  failure's message. The code builds the new error from the operation's context string
  instead: a refused connection during a chat call surfaces as
  \<open>Failed to send chat message\<close>, and the original message is dropped.
\<close>

theorem handleError_original_message_counterexample:
  "handleError (Error ''connect ECONNREFUSED'') ''Failed to send chat message''
     \<noteq> Error ''connect ECONNREFUSED''"
  by (simp add: handleError_def)

lemma handleError_cases:
  "(err = AxiosError m (Some r) \<and> status r = 401 \<longrightarrow>
      handleError err msg = Error ''Yelp API authentication failed'') \<and>
   (err = AxiosError m (Some r) \<and> status r = 429 \<longrightarrow>
      handleError err msg = Error ''Yelp API rate limit exceeded'') \<and>
   (err = AxiosError m (Some r) \<and> status r \<ge> 500 \<longrightarrow>
      handleError err msg = Error (''Yelp API server error: '' @ msg)) \<and>
   (err = AxiosError m (Some r) \<and> status r < 500 \<and> status r \<noteq> 401 \<and> status r \<noteq> 429 \<and>
    data r = Some d \<and> body_error d = Some e \<and> err_description e = Some dsc \<and> dsc \<noteq> [] \<longrightarrow>
      handleError err msg = Error (''Yelp API error: '' @ dsc)) \<and>
   (err = AxiosError m (Some r) \<and> status r < 500 \<and> status r \<noteq> 401 \<and> status r \<noteq> 429 \<and>
    data r = Some d \<and> body_error d = Some e \<and> \<not> truthy (err_description e) \<longrightarrow>
      handleError err msg = Error (''Yelp API error: '' @ msg)) \<and>
   (unclassified err \<longrightarrow> handleError err msg = Error msg) \<and>
   (\<exists>str. handleError err msg = Error str)"
  by (auto simp: handleError_def unclassified_def truthy_def Let_def
           split: thrown.splits option.splits)

lemma getFromCache_client: "client (snd (getFromCache rt svc k s)) = client svc"
  by (simp add: getFromCache_def Let_def split: option.splits)

text \<open>
  A rejected operation found no fresh cache entry, its request was rejected by the retry
  wrapper, and what it throws is the normalisation of the wrapper's value under the
  operation's context string.
\<close>

lemma run_operation_failure:
  assumes run: "run_operation rt svc opr s = (Inl e, svc', s')"
  shows "\<exists>err. wrapper_failure rt svc opr s = Some err \<and>
               e = handleError err (operation_context opr)"
proof (cases opr)
  case (Chat msg h ctx)
  let ?k = "generateCacheKey rt ''chat'' (ChatParams msg ctx)"
  let ?f = "chat_post rt (client svc) ''/v2/ai/chat''
              (chat_request msg (case h of None \<Rightarrow> [] | Some x \<Rightarrow> x) ctx)"
  obtain c svc1 where g: "getFromCache rt svc ?k s = (c, svc1)" by (cases "getFromCache rt svc ?k s")
  with getFromCache_client[of rt svc ?k s] have cl: "client svc1 = client svc" by simp
  obtain r s1 where rr: "retryRequest rt ?f 3 s = (r, s1)" by (cases "retryRequest rt ?f 3 s")
  from run Chat g cl rr show ?thesis
    by (cases c; cases r)
       (simp_all add: run_operation_def sendChatMessage_def Let_def wrapper_failure_def
          thrown_of_def operation_context_def)
next
  case (Details pid)
  let ?k = "generateCacheKey rt ''place'' (PlaceParams pid)"
  let ?f = "details_get rt (client svc) (''/v3/businesses/'' @ pid)"
  obtain c svc1 where g: "getFromCache rt svc ?k s = (c, svc1)" by (cases "getFromCache rt svc ?k s")
  with getFromCache_client[of rt svc ?k s] have cl: "client svc1 = client svc" by simp
  obtain r s1 where rr: "retryRequest rt ?f 3 s = (r, s1)" by (cases "retryRequest rt ?f 3 s")
  from run Details g cl rr show ?thesis
    by (cases c; cases r)
       (simp_all add: run_operation_def getPlaceDetails_def Let_def wrapper_failure_def
          thrown_of_def operation_context_def)
next
  case (Search query loc filters)
  let ?k = "generateCacheKey rt ''search'' (SearchParams query loc filters)"
  let ?f = "search_get rt (client svc) ''/v3/businesses/search''
              (search_request_params query loc filters)"
  obtain c svc1 where g: "getFromCache rt svc ?k s = (c, svc1)" by (cases "getFromCache rt svc ?k s")
  with getFromCache_client[of rt svc ?k s] have cl: "client svc1 = client svc" by simp
  obtain r s1 where rr: "retryRequest rt ?f 3 s = (r, s1)" by (cases "retryRequest rt ?f 3 s")
  from run Search g cl rr show ?thesis
    by (cases c; cases r)
       (simp_all add: run_operation_def searchPlaces_def Let_def wrapper_failure_def
          thrown_of_def operation_context_def)
qed

text \<open>
  Conversely, with no fresh cache entry, a request that the retry wrapper rejects makes
  the operation throw the normalised error.
\<close>

lemma run_operation_rejected:
  assumes miss: "cache svc (operation_key rt opr) = None \<or>
            (\<exists>en. cache svc (operation_key rt opr) = Some en \<and>
                 date_now rt (world s) - entry_timestamp en > CACHE_TTL)"
      and wf: "wrapper_failure rt svc opr s = Some err"
      and run: "run_operation rt svc opr s = (res, svc', s')"
  shows "res = Inl (handleError err (operation_context opr))"
proof (cases opr)
  case (Chat msg h ctx)
  let ?k = "generateCacheKey rt ''chat'' (ChatParams msg ctx)"
  let ?f = "chat_post rt (client svc) ''/v2/ai/chat''
              (chat_request msg (case h of None \<Rightarrow> [] | Some x \<Rightarrow> x) ctx)"
  from miss Chat obtain svc1 where g: "getFromCache rt svc ?k s = (None, svc1)"
      and cl: "client svc1 = client svc"
    using getFromCache_miss[of svc ?k rt s] by (auto simp: operation_key_def)
  obtain r s1 where rr: "retryRequest rt ?f 3 s = (r, s1)" by (cases "retryRequest rt ?f 3 s")
  from run wf Chat g cl rr show ?thesis
    by (cases r)
       (simp_all add: run_operation_def sendChatMessage_def Let_def wrapper_failure_def
          thrown_of_def operation_context_def)
next
  case (Details pid)
  let ?k = "generateCacheKey rt ''place'' (PlaceParams pid)"
  let ?f = "details_get rt (client svc) (''/v3/businesses/'' @ pid)"
  from miss Details obtain svc1 where g: "getFromCache rt svc ?k s = (None, svc1)"
      and cl: "client svc1 = client svc"
    using getFromCache_miss[of svc ?k rt s] by (auto simp: operation_key_def)
  obtain r s1 where rr: "retryRequest rt ?f 3 s = (r, s1)" by (cases "retryRequest rt ?f 3 s")
  from run wf Details g cl rr show ?thesis
    by (cases r)
       (simp_all add: run_operation_def getPlaceDetails_def Let_def wrapper_failure_def
          thrown_of_def operation_context_def)
next
  case (Search query loc filters)
  let ?k = "generateCacheKey rt ''search'' (SearchParams query loc filters)"
  let ?f = "search_get rt (client svc) ''/v3/businesses/search''
              (search_request_params query loc filters)"
  from miss Search obtain svc1 where g: "getFromCache rt svc ?k s = (None, svc1)"
      and cl: "client svc1 = client svc"
    using getFromCache_miss[of svc ?k rt s] by (auto simp: operation_key_def)
  obtain r s1 where rr: "retryRequest rt ?f 3 s = (r, s1)" by (cases "retryRequest rt ?f 3 s")
  from run wf Search g cl rr show ?thesis
    by (cases r)
       (simp_all add: run_operation_def searchPlaces_def Let_def wrapper_failure_def
          thrown_of_def operation_context_def)
qed

text \<open>Rejected requests on the simulated runtime.\<close>

lemma sim_chat_rejected:
  assumes "is_client_error x"
  shows "wrapper_failure (sim_runtime (\<lambda>n. Inl x)) sim_service (Chat ''pizza'' None None) (sim_start 0)
           = Some x"
  using assms
  by (simp add: wrapper_failure_def thrown_of_def retryRequest_def retry_loop.simps[of _ _ 3 0]
      invoke_def sim_runtime_def sim_start_def)

lemma sim_chat_exhausted:
  "wrapper_failure (sim_runtime (\<lambda>n. Inl sim_503)) sim_service (Chat ''pizza'' None None) (sim_start 0)
           = Some sim_503"
  by (simp add: wrapper_failure_def thrown_of_def retryRequest_def retry_loop.simps[of _ _ 3 0]
      retry_loop.simps[of _ _ 3 1] retry_loop.simps[of _ _ 3 2] retry_loop.simps[of _ _ 3 3]
      invoke_def sleep_def sim_runtime_def sim_start_def sim_503_def is_client_error_def)

lemma sim_details_rejected:
  "wrapper_failure (sim_runtime (\<lambda>n. Inl Null)) sim_service (Details ''north'') (sim_start 0)
           = Some sim_404"
  by (simp add: wrapper_failure_def thrown_of_def retryRequest_def retry_loop.simps[of _ _ 3 0]
      invoke_def sim_runtime_def sim_start_def sim_404_def is_client_error_def)

lemma sim_cache_empty: "cache sim_service k = None"
  by (simp add: sim_service_def)

text \<open>
  Claim C4, amended. For each of the three operations (\<open>sendChatMessage\<close>,
  \<open>getPlaceDetails\<close>, \<open>searchPlaces\<close>) and every failure it surfaces: the operation found
  no fresh cache entry, the retry wrapper rejected its request with some value, and the
  failure surfaced is the normalisation of that value under the operation's context
  string; conversely, with no fresh cache entry, every value the wrapper rejects the
  request with is surfaced so. When that value is a remote 401 the failure is
  \<open>Yelp API authentication failed\<close>; a remote 429, \<open>Yelp API rate limit exceeded\<close>; a
  remote status of 500 or more, \<open>Yelp API server error: \<close> followed by the context
  string; a response with another status below 500 whose body carries a structured
  error, \<open>Yelp API error: \<close> followed by the body's description, or by the context
  string when the description is missing or empty; any other value, the context string
  alone. The failure is always a single \<open>Error\<close> that carries only a string.
\<close>

theorem surfaced_failure_taxonomy:
  fixes rt :: "'w runtime"
  assumes run: "run_operation rt svc opr s = (res, svc', s')"
  shows
    "(res = Inl e \<longrightarrow>
        (\<exists>thrown_value. wrapper_failure rt svc opr s = Some thrown_value \<and>
                         e = handleError thrown_value (operation_context opr))) \<and>
     ((cache svc (operation_key rt opr) = None \<or>
        (\<exists>en. cache svc (operation_key rt opr) = Some en \<and>
              date_now rt (world s) - entry_timestamp en > CACHE_TTL)) \<and>
      wrapper_failure rt svc opr s = Some err \<longrightarrow>
        res = Inl (handleError err (operation_context opr))) \<and>
     (res = Inl e \<and> wrapper_failure rt svc opr s = Some err \<longrightarrow>
        (err = AxiosError m (Some r) \<and> status r = 401 \<longrightarrow>
           e = Error ''Yelp API authentication failed'') \<and>
        (err = AxiosError m (Some r) \<and> status r = 429 \<longrightarrow>
           e = Error ''Yelp API rate limit exceeded'') \<and>
        (err = AxiosError m (Some r) \<and> status r \<ge> 500 \<longrightarrow>
           e = Error (''Yelp API server error: '' @ operation_context opr)) \<and>
        (err = AxiosError m (Some r) \<and> status r < 500 \<and> status r \<noteq> 401 \<and> status r \<noteq> 429 \<and>
         data r = Some d \<and> body_error d = Some b \<and> err_description b = Some dsc \<and> dsc \<noteq> [] \<longrightarrow>
           e = Error (''Yelp API error: '' @ dsc)) \<and>
        (err = AxiosError m (Some r) \<and> status r < 500 \<and> status r \<noteq> 401 \<and> status r \<noteq> 429 \<and>
         data r = Some d \<and> body_error d = Some b \<and> \<not> truthy (err_description b) \<longrightarrow>
           e = Error (''Yelp API error: '' @ operation_context opr)) \<and>
        (unclassified err \<longrightarrow> e = Error (operation_context opr))) \<and>
     (res = Inl e \<longrightarrow> (\<exists>str. e = Error str))"
proof (intro conjI)
  show "res = Inl e \<longrightarrow>
        (\<exists>thrown_value. wrapper_failure rt svc opr s = Some thrown_value \<and>
                         e = handleError thrown_value (operation_context opr))"
    using run run_operation_failure[of rt svc opr s e svc' s'] by simp
  show "(cache svc (operation_key rt opr) = None \<or>
        (\<exists>en. cache svc (operation_key rt opr) = Some en \<and>
              date_now rt (world s) - entry_timestamp en > CACHE_TTL)) \<and>
      wrapper_failure rt svc opr s = Some err \<longrightarrow>
        res = Inl (handleError err (operation_context opr))"
    using run_operation_rejected[OF _ _ run] by blast
  show "res = Inl e \<longrightarrow> (\<exists>str. e = Error str)"
    using run run_operation_failure[of rt svc opr s e svc' s']
      handleError_cases[THEN conjunct2, THEN conjunct2, THEN conjunct2, THEN conjunct2,
        THEN conjunct2, THEN conjunct2]
    by auto
  show "res = Inl e \<and> wrapper_failure rt svc opr s = Some err \<longrightarrow>
        (err = AxiosError m (Some r) \<and> status r = 401 \<longrightarrow>
           e = Error ''Yelp API authentication failed'') \<and>
        (err = AxiosError m (Some r) \<and> status r = 429 \<longrightarrow>
           e = Error ''Yelp API rate limit exceeded'') \<and>
        (err = AxiosError m (Some r) \<and> status r \<ge> 500 \<longrightarrow>
           e = Error (''Yelp API server error: '' @ operation_context opr)) \<and>
        (err = AxiosError m (Some r) \<and> status r < 500 \<and> status r \<noteq> 401 \<and> status r \<noteq> 429 \<and>
         data r = Some d \<and> body_error d = Some b \<and> err_description b = Some dsc \<and> dsc \<noteq> [] \<longrightarrow>
           e = Error (''Yelp API error: '' @ dsc)) \<and>
        (err = AxiosError m (Some r) \<and> status r < 500 \<and> status r \<noteq> 401 \<and> status r \<noteq> 429 \<and>
         data r = Some d \<and> body_error d = Some b \<and> \<not> truthy (err_description b) \<longrightarrow>
           e = Error (''Yelp API error: '' @ operation_context opr)) \<and>
        (unclassified err \<longrightarrow> e = Error (operation_context opr))"
  proof (intro impI)
    assume a: "res = Inl e \<and> wrapper_failure rt svc opr s = Some err"
    with run run_operation_failure[of rt svc opr s e svc' s']
    have e: "e = handleError err (operation_context opr)" by auto
    show "(err = AxiosError m (Some r) \<and> status r = 401 \<longrightarrow>
           e = Error ''Yelp API authentication failed'') \<and>
        (err = AxiosError m (Some r) \<and> status r = 429 \<longrightarrow>
           e = Error ''Yelp API rate limit exceeded'') \<and>
        (err = AxiosError m (Some r) \<and> status r \<ge> 500 \<longrightarrow>
           e = Error (''Yelp API server error: '' @ operation_context opr)) \<and>
        (err = AxiosError m (Some r) \<and> status r < 500 \<and> status r \<noteq> 401 \<and> status r \<noteq> 429 \<and>
         data r = Some d \<and> body_error d = Some b \<and> err_description b = Some dsc \<and> dsc \<noteq> [] \<longrightarrow>
           e = Error (''Yelp API error: '' @ dsc)) \<and>
        (err = AxiosError m (Some r) \<and> status r < 500 \<and> status r \<noteq> 401 \<and> status r \<noteq> 429 \<and>
         data r = Some d \<and> body_error d = Some b \<and> \<not> truthy (err_description b) \<longrightarrow>
           e = Error (''Yelp API error: '' @ operation_context opr)) \<and>
        (unclassified err \<longrightarrow> e = Error (operation_context opr))"
      unfolding e
      using handleError_cases[of err m r "operation_context opr" d b dsc] by blast
  qed
qed

theorem surfaced_failure_taxonomy_witness:
  "fst (run_operation (sim_runtime (\<lambda>n. Inl (sim_failure 401 None))) sim_service
          (Chat ''pizza'' None None) (sim_start 0))
     = Inl (Error ''Yelp API authentication failed'') \<and>
   fst (run_operation (sim_runtime (\<lambda>n. Inl (sim_failure 429 None))) sim_service
          (Chat ''pizza'' None None) (sim_start 0))
     = Inl (Error ''Yelp API rate limit exceeded'') \<and>
   fst (run_operation (sim_runtime (\<lambda>n. Inl sim_503)) sim_service
          (Chat ''pizza'' None None) (sim_start 0))
     = Inl (Error ''Yelp API server error: Failed to send chat message'') \<and>
   fst (run_operation (sim_runtime (\<lambda>n. Inl (sim_failure 400 (Some ''Bad term'')))) sim_service
          (Chat ''pizza'' None None) (sim_start 0))
     = Inl (Error ''Yelp API error: Bad term'') \<and>
   fst (run_operation (sim_runtime (\<lambda>n. Inl (sim_failure 400 None))) sim_service
          (Chat ''pizza'' None None) (sim_start 0))
     = Inl (Error ''Yelp API error: Failed to send chat message'') \<and>
   fst (run_operation (sim_runtime (\<lambda>n. Inl Null)) sim_service (Details ''north'') (sim_start 0))
     = Inl (Error ''Failed to get place details for north'')"
proof (intro conjI)
  let ?chat = "Chat ''pizza'' None None"
  let ?details = "Details ''north''"
  {
    let ?rt = "sim_runtime (\<lambda>n. Inl (sim_failure 401 None))"
    obtain res svc' s' where run: "run_operation ?rt sim_service ?chat (sim_start 0) = (res, svc', s')"
      by (cases "run_operation ?rt sim_service ?chat (sim_start 0)")
    have x: "sim_failure 401 None = AxiosError ''Request failed'' (Some \<lparr>status = 401, data = Some \<lparr>body_error = Some \<lparr>err_code = Some ''VALIDATION_ERROR'', err_description = None\<rparr>\<rparr>\<rparr>)" by (simp add: sim_failure_def)
    have wf: "wrapper_failure ?rt sim_service ?chat (sim_start 0) = Some (sim_failure 401 None)"
      by (rule sim_chat_rejected) (simp add: sim_failure_def is_client_error_def)
    note t = surfaced_failure_taxonomy[OF run, where err = "sim_failure 401 None"
        and e = "handleError (sim_failure 401 None) (operation_context ?chat)" and m = "''Request failed''" and r = "\<lparr>status = 401, data = Some \<lparr>body_error = Some \<lparr>err_code = Some ''VALIDATION_ERROR'', err_description = None\<rparr>\<rparr>\<rparr>"]
    have r1: "res = Inl (handleError (sim_failure 401 None) (operation_context ?chat))"
      using t[THEN conjunct2, THEN conjunct1] wf sim_cache_empty by blast
    have "handleError (sim_failure 401 None) (operation_context ?chat) = Error ''Yelp API authentication failed''"
      using t[THEN conjunct2, THEN conjunct2, THEN conjunct1] r1 wf x
      by (simp add: operation_context_def)
    with r1 run show "fst (run_operation ?rt sim_service ?chat (sim_start 0)) = Inl (Error ''Yelp API authentication failed'')"
      by simp
  }
  {
    let ?rt = "sim_runtime (\<lambda>n. Inl (sim_failure 429 None))"
    obtain res svc' s' where run: "run_operation ?rt sim_service ?chat (sim_start 0) = (res, svc', s')"
      by (cases "run_operation ?rt sim_service ?chat (sim_start 0)")
    have x: "sim_failure 429 None = AxiosError ''Request failed'' (Some \<lparr>status = 429, data = Some \<lparr>body_error = Some \<lparr>err_code = Some ''VALIDATION_ERROR'', err_description = None\<rparr>\<rparr>\<rparr>)" by (simp add: sim_failure_def)
    have wf: "wrapper_failure ?rt sim_service ?chat (sim_start 0) = Some (sim_failure 429 None)"
      by (rule sim_chat_rejected) (simp add: sim_failure_def is_client_error_def)
    note t = surfaced_failure_taxonomy[OF run, where err = "sim_failure 429 None"
        and e = "handleError (sim_failure 429 None) (operation_context ?chat)" and m = "''Request failed''" and r = "\<lparr>status = 429, data = Some \<lparr>body_error = Some \<lparr>err_code = Some ''VALIDATION_ERROR'', err_description = None\<rparr>\<rparr>\<rparr>"]
    have r1: "res = Inl (handleError (sim_failure 429 None) (operation_context ?chat))"
      using t[THEN conjunct2, THEN conjunct1] wf sim_cache_empty by blast
    have "handleError (sim_failure 429 None) (operation_context ?chat) = Error ''Yelp API rate limit exceeded''"
      using t[THEN conjunct2, THEN conjunct2, THEN conjunct1] r1 wf x
      by (simp add: operation_context_def)
    with r1 run show "fst (run_operation ?rt sim_service ?chat (sim_start 0)) = Inl (Error ''Yelp API rate limit exceeded'')"
      by simp
  }
  {
    let ?rt = "sim_runtime (\<lambda>n. Inl sim_503)"
    obtain res svc' s' where run: "run_operation ?rt sim_service ?chat (sim_start 0) = (res, svc', s')"
      by (cases "run_operation ?rt sim_service ?chat (sim_start 0)")
    have x: "sim_503 = AxiosError ''Request failed with status code 503'' (Some \<lparr>status = 503, data = None\<rparr>)" by (simp add: sim_503_def)
    have wf: "wrapper_failure ?rt sim_service ?chat (sim_start 0) = Some (sim_503)"
      by (rule sim_chat_exhausted)
    note t = surfaced_failure_taxonomy[OF run, where err = "sim_503"
        and e = "handleError (sim_503) (operation_context ?chat)" and m = "''Request failed with status code 503''" and r = "\<lparr>status = 503, data = None\<rparr>"]
    have r1: "res = Inl (handleError (sim_503) (operation_context ?chat))"
      using t[THEN conjunct2, THEN conjunct1] wf sim_cache_empty by blast
    have "handleError (sim_503) (operation_context ?chat) = Error ''Yelp API server error: Failed to send chat message''"
      using t[THEN conjunct2, THEN conjunct2, THEN conjunct1] r1 wf x
      by (simp add: operation_context_def)
    with r1 run show "fst (run_operation ?rt sim_service ?chat (sim_start 0)) = Inl (Error ''Yelp API server error: Failed to send chat message'')"
      by simp
  }
  {
    let ?rt = "sim_runtime (\<lambda>n. Inl (sim_failure 400 (Some ''Bad term'')))"
    obtain res svc' s' where run: "run_operation ?rt sim_service ?chat (sim_start 0) = (res, svc', s')"
      by (cases "run_operation ?rt sim_service ?chat (sim_start 0)")
    have x: "sim_failure 400 (Some ''Bad term'') = AxiosError ''Request failed'' (Some \<lparr>status = 400, data = Some \<lparr>body_error = Some \<lparr>err_code = Some ''VALIDATION_ERROR'', err_description = (Some ''Bad term'')\<rparr>\<rparr>\<rparr>)" by (simp add: sim_failure_def)
    have wf: "wrapper_failure ?rt sim_service ?chat (sim_start 0) = Some (sim_failure 400 (Some ''Bad term''))"
      by (rule sim_chat_rejected) (simp add: sim_failure_def is_client_error_def)
    note t = surfaced_failure_taxonomy[OF run, where err = "sim_failure 400 (Some ''Bad term'')"
        and e = "handleError (sim_failure 400 (Some ''Bad term'')) (operation_context ?chat)" and m = "''Request failed''" and r = "\<lparr>status = 400, data = Some \<lparr>body_error = Some \<lparr>err_code = Some ''VALIDATION_ERROR'', err_description = (Some ''Bad term'')\<rparr>\<rparr>\<rparr>" and d = "\<lparr>body_error = Some \<lparr>err_code = Some ''VALIDATION_ERROR'', err_description = (Some ''Bad term'')\<rparr>\<rparr>" and b = "\<lparr>err_code = Some ''VALIDATION_ERROR'', err_description = (Some ''Bad term'')\<rparr>" and dsc = "''Bad term''"]
    have r1: "res = Inl (handleError (sim_failure 400 (Some ''Bad term'')) (operation_context ?chat))"
      using t[THEN conjunct2, THEN conjunct1] wf sim_cache_empty by blast
    have "handleError (sim_failure 400 (Some ''Bad term'')) (operation_context ?chat) = Error ''Yelp API error: Bad term''"
      using t[THEN conjunct2, THEN conjunct2, THEN conjunct1] r1 wf x
      by (simp add: operation_context_def)
    with r1 run show "fst (run_operation ?rt sim_service ?chat (sim_start 0)) = Inl (Error ''Yelp API error: Bad term'')"
      by simp
  }
  {
    let ?rt = "sim_runtime (\<lambda>n. Inl (sim_failure 400 None))"
    obtain res svc' s' where run: "run_operation ?rt sim_service ?chat (sim_start 0) = (res, svc', s')"
      by (cases "run_operation ?rt sim_service ?chat (sim_start 0)")
    have x: "sim_failure 400 None = AxiosError ''Request failed'' (Some \<lparr>status = 400, data = Some \<lparr>body_error = Some \<lparr>err_code = Some ''VALIDATION_ERROR'', err_description = None\<rparr>\<rparr>\<rparr>)" by (simp add: sim_failure_def)
    have wf: "wrapper_failure ?rt sim_service ?chat (sim_start 0) = Some (sim_failure 400 None)"
      by (rule sim_chat_rejected) (simp add: sim_failure_def is_client_error_def)
    note t = surfaced_failure_taxonomy[OF run, where err = "sim_failure 400 None"
        and e = "handleError (sim_failure 400 None) (operation_context ?chat)" and m = "''Request failed''" and r = "\<lparr>status = 400, data = Some \<lparr>body_error = Some \<lparr>err_code = Some ''VALIDATION_ERROR'', err_description = None\<rparr>\<rparr>\<rparr>" and d = "\<lparr>body_error = Some \<lparr>err_code = Some ''VALIDATION_ERROR'', err_description = None\<rparr>\<rparr>" and b = "\<lparr>err_code = Some ''VALIDATION_ERROR'', err_description = None\<rparr>"]
    have r1: "res = Inl (handleError (sim_failure 400 None) (operation_context ?chat))"
      using t[THEN conjunct2, THEN conjunct1] wf sim_cache_empty by blast
    have "handleError (sim_failure 400 None) (operation_context ?chat) = Error ''Yelp API error: Failed to send chat message''"
      using t[THEN conjunct2, THEN conjunct2, THEN conjunct1] r1 wf x
      by (simp add: operation_context_def truthy_def)
    with r1 run show "fst (run_operation ?rt sim_service ?chat (sim_start 0)) = Inl (Error ''Yelp API error: Failed to send chat message'')"
      by simp
  }
  {
    let ?rt = "sim_runtime (\<lambda>n. Inl Null)"
    obtain res svc' s' where run: "run_operation ?rt sim_service ?details (sim_start 0) = (res, svc', s')"
      by (cases "run_operation ?rt sim_service ?details (sim_start 0)")
    have x: "unclassified (sim_404)" by (simp add: unclassified_def sim_404_def)
    have wf: "wrapper_failure ?rt sim_service ?details (sim_start 0) = Some (sim_404)"
      by (rule sim_details_rejected)
    note t = surfaced_failure_taxonomy[OF run, where err = "sim_404"
        and e = "handleError (sim_404) (operation_context ?details)"]
    have r1: "res = Inl (handleError (sim_404) (operation_context ?details))"
      using t[THEN conjunct2, THEN conjunct1] wf sim_cache_empty by blast
    have "handleError (sim_404) (operation_context ?details) = Error ''Failed to get place details for north''"
      using t[THEN conjunct2, THEN conjunct2, THEN conjunct1] r1 wf x
      by (simp add: operation_context_def)
    with r1 run show "fst (run_operation ?rt sim_service ?details (sim_start 0)) = Inl (Error ''Failed to get place details for north'')"
      by simp
  }
qed

section \<open>Coordinates of places\<close>

text \<open>
  Claim C5. For every remote coordinate pair with latitude in \<open>[-90, 90]\<close> and longitude
  in \<open>[-180, 180]\<close>, the boundary values and \<open>(0, 0)\<close> included, the place-details
  formatter and the place-search formatter both give \<open>lat = latitude\<close> and
  \<open>lng = longitude\<close>. (The formatters copy the two numbers, so the same holds outside
  the range.)
\<close>

theorem coordinates_roundtrip:
  "(- 90 \<le> latitude (d_coordinates r) \<and> latitude (d_coordinates r) \<le> 90 \<and>
    - 180 \<le> longitude (d_coordinates r) \<and> longitude (d_coordinates r) \<le> 180 \<longrightarrow>
      lat (coordinates (formatPlaceDetails r)) = latitude (d_coordinates r) \<and>
      lng (coordinates (formatPlaceDetails r)) = longitude (d_coordinates r)) \<and>
   (- 90 \<le> latitude (b_coordinates b) \<and> latitude (b_coordinates b) \<le> 90 \<and>
    - 180 \<le> longitude (b_coordinates b) \<and> longitude (b_coordinates b) \<le> 180 \<longrightarrow>
      lat (coordinates (formatSearchResult b)) = latitude (b_coordinates b) \<and>
      lng (coordinates (formatSearchResult b)) = longitude (b_coordinates b))"
  by (simp add: formatPlaceDetails_def formatSearchResult_def)

theorem coordinates_roundtrip_witness:
  "lat (coordinates (formatPlaceDetails sim_details)) = 90 \<and>
   lng (coordinates (formatPlaceDetails sim_details)) = - 180 \<and>
   lat (coordinates (formatSearchResult sim_business)) = 0 \<and>
   lng (coordinates (formatSearchResult sim_business)) = 0"
proof -
  have d: "d_coordinates sim_details = \<lparr>latitude = 90, longitude = - 180\<rparr>"
    by (simp add: sim_details_def)
  have b: "b_coordinates sim_business = \<lparr>latitude = 0, longitude = 0\<rparr>"
    by (simp add: sim_business_def)
  from coordinates_roundtrip[of sim_details sim_business] show ?thesis
    by (simp add: d b)
qed

section \<open>Normalisation of chat responses\<close>

lemma parseRecommendations_length:
  "length (parseRecommendations (Some rs)) = length rs"
  by (simp add: parseRecommendations_def)

lemma parseRecommendations_nth:
  "i < length rs \<Longrightarrow>
     parseRecommendations (Some rs) ! i =
       \<lparr>placeId = place_id (rs ! i), placeName = rec_name (rs ! i),
        relevanceScore = relevance_score (rs ! i), reasoning = rec_reasoning (rs ! i)\<rparr>"
  by (simp add: parseRecommendations_def)

text \<open>
  Claim C6. When \<open>sendChatMessage\<close> finds no fresh cache entry and the remote service
  answers (at once or after retries) with a response that has no recommendations
  member, the result carries the empty list of recommendations; when the member is
  present, the result has one recommendation per remote element, in order, with
  \<open>place_id\<close> as \<open>placeId\<close>, \<open>name\<close> as \<open>placeName\<close>, \<open>relevance_score\<close> as
  \<open>relevanceScore\<close> and the reasoning kept.
\<close>

theorem chat_recommendations_normalised:
  fixes rt :: "'w runtime"
  assumes miss: "cache svc (generateCacheKey rt ''chat'' (ChatParams msg ctx)) = None \<or>
                 (\<exists>e. cache svc (generateCacheKey rt ''chat'' (ChatParams msg ctx)) = Some e \<and>
                      date_now rt (world s) - entry_timestamp e > CACHE_TTL)"
      and ok: "retryRequest rt
                 (chat_post rt (client svc) ''/v2/ai/chat''
                    (chat_request msg (case h of None \<Rightarrow> [] | Some x \<Rightarrow> x) ctx)) 3 s
               = (Inr resp, s1)"
  shows "\<exists>result. fst (sendChatMessage rt svc msg h ctx s) = Inr (ChatValue result) \<and>
           res_response result = response resp \<and>
           (recommendations resp = None \<longrightarrow> res_recommendations result = []) \<and>
           (recommendations resp = Some rs \<longrightarrow>
              length (res_recommendations result) = length rs \<and>
              (\<forall>i<length rs.
                 placeId (res_recommendations result ! i) = place_id (rs ! i) \<and>
                 placeName (res_recommendations result ! i) = rec_name (rs ! i) \<and>
                 relevanceScore (res_recommendations result ! i) = relevance_score (rs ! i) \<and>
                 reasoning (res_recommendations result ! i) = rec_reasoning (rs ! i)))"
proof -
  let ?k = "generateCacheKey rt ''chat'' (ChatParams msg ctx)"
  let ?result = "\<lparr>res_response = response resp,
      res_recommendations =
        parseRecommendations (Some (case recommendations resp of Some rs \<Rightarrow> rs | None \<Rightarrow> []))\<rparr>"
  from getFromCache_miss[OF miss] obtain svc1
    where g: "getFromCache rt svc ?k s = (None, svc1)" and c: "client svc1 = client svc"
    by blast
  have run: "fst (sendChatMessage rt svc msg h ctx s) = Inr (ChatValue ?result)"
    using g c ok by (simp add: sendChatMessage_def Let_def)
  have none: "recommendations resp = None \<longrightarrow> res_recommendations ?result = []"
    by (simp add: parseRecommendations_def)
  have some: "recommendations resp = Some rs \<longrightarrow>
              length (res_recommendations ?result) = length rs \<and>
              (\<forall>i<length rs.
                 placeId (res_recommendations ?result ! i) = place_id (rs ! i) \<and>
                 placeName (res_recommendations ?result ! i) = rec_name (rs ! i) \<and>
                 relevanceScore (res_recommendations ?result ! i) = relevance_score (rs ! i) \<and>
                 reasoning (res_recommendations ?result ! i) = rec_reasoning (rs ! i))"
    by (simp add: parseRecommendations_length parseRecommendations_nth)
  from run none some show ?thesis by (intro exI[of _ ?result]) simp
qed

theorem chat_recommendations_normalised_witness:
  "fst (sendChatMessage (sim_runtime (\<lambda>n. if n = 0 then Inl sim_503 else Inr sim_reply))
          sim_service ''pizza'' None None (sim_start 0))
     = Inr (ChatValue \<lparr>res_response = ''Try Luigi'', res_recommendations = []\<rparr>) \<and>
   fst (sendChatMessage (sim_runtime (\<lambda>n. Inr sim_reply_with))
          sim_service ''pizza'' None None (sim_start 0))
     = Inr (ChatValue \<lparr>res_response = ''Try Luigi'',
          res_recommendations =
            [\<lparr>placeId = ''luigi-pizza-sf'', placeName = ''Luigi Pizza'', relevanceScore = 0.9,
              reasoning = Some ''cozy''\<rparr>]\<rparr>)"
proof
  let ?rt = "sim_runtime (\<lambda>n. if n = 0 then Inl sim_503 else Inr sim_reply)"
  have miss: "cache sim_service (generateCacheKey ?rt ''chat'' (ChatParams ''pizza'' None)) = None \<or>
                 (\<exists>e. cache sim_service (generateCacheKey ?rt ''chat'' (ChatParams ''pizza'' None)) = Some e \<and>
                      date_now ?rt (world (sim_start 0)) - entry_timestamp e > CACHE_TTL)"
    by (simp add: sim_service_def)
  have ok: "retryRequest ?rt
                 (chat_post ?rt (client sim_service) ''/v2/ai/chat''
                    (chat_request ''pizza'' (case None of None \<Rightarrow> [] | Some x \<Rightarrow> x) None)) 3 (sim_start 0)
               = (Inr sim_reply, \<lparr>world = (1240, 2), trace = [Request, Sleep 1000, Request]\<rparr>)"
    by (simp add: retryRequest_def retry_loop.simps[of _ _ 3 0] retry_loop.simps[of _ _ 3 1]
        invoke_def sleep_def sim_runtime_def sim_start_def sim_503_def is_client_error_def)
  from chat_recommendations_normalised[OF miss ok, where rs = undefined]
  obtain result where r: "fst (sendChatMessage ?rt sim_service ''pizza'' None None (sim_start 0))
       = Inr (ChatValue result)" "res_response result = ''Try Luigi''" "res_recommendations result = []"
    by (auto simp: sim_reply_def)
  then have "result = \<lparr>res_response = ''Try Luigi'', res_recommendations = []\<rparr>" by simp
  with r(1) show "fst (sendChatMessage ?rt sim_service ''pizza'' None None (sim_start 0))
     = Inr (ChatValue \<lparr>res_response = ''Try Luigi'', res_recommendations = []\<rparr>)" by simp
next
  let ?rt = "sim_runtime (\<lambda>n. Inr sim_reply_with)"
  let ?rec = "\<lparr>placeId = ''luigi-pizza-sf'', placeName = ''Luigi Pizza'', relevanceScore = 0.9,
              reasoning = Some ''cozy''\<rparr>"
  have miss: "cache sim_service (generateCacheKey ?rt ''chat'' (ChatParams ''pizza'' None)) = None \<or>
                 (\<exists>e. cache sim_service (generateCacheKey ?rt ''chat'' (ChatParams ''pizza'' None)) = Some e \<and>
                      date_now ?rt (world (sim_start 0)) - entry_timestamp e > CACHE_TTL)"
    by (simp add: sim_service_def)
  have ok: "retryRequest ?rt
                 (chat_post ?rt (client sim_service) ''/v2/ai/chat''
                    (chat_request ''pizza'' (case None of None \<Rightarrow> [] | Some x \<Rightarrow> x) None)) 3 (sim_start 0)
               = (Inr sim_reply_with, \<lparr>world = (120, 1), trace = [Request]\<rparr>)"
    by (simp add: retryRequest_def retry_loop.simps[of _ _ 3 0]
        invoke_def sim_runtime_def sim_start_def)
  from chat_recommendations_normalised[OF miss ok, where rs = "[sim_recommendation]"]
  obtain result where r: "fst (sendChatMessage ?rt sim_service ''pizza'' None None (sim_start 0))
       = Inr (ChatValue result)" "res_response result = ''Try Luigi''"
       "length (res_recommendations result) = 1"
       "res_recommendations result ! 0 = ?rec"
    by (auto simp: sim_reply_with_def sim_recommendation_def)
  from r(3,4) have "res_recommendations result = [?rec]"
    by (cases "res_recommendations result") auto
  with r(2) have "result = \<lparr>res_response = ''Try Luigi'', res_recommendations = [?rec]\<rparr>" by simp
  with r(1) show "fst (sendChatMessage ?rt sim_service ''pizza'' None None (sim_start 0))
     = Inr (ChatValue \<lparr>res_response = ''Try Luigi'', res_recommendations = [?rec]\<rparr>)" by simp
qed

section \<open>The context assembler\<close>

lemma getWeatherWithFallback_returns:
  "\<exists>w s1. getWeatherWithFallback rt svc loc s = (Inr w, s1)"
  unfolding getWeatherWithFallback_def
  by (auto split: option.splits prod.splits sum.splits)

lemma getCurrentContext_returns:
  "\<exists>w s1. getCurrentContext rt svc loc s =
     (Inr \<lparr>time = getTimeContext (new_Date rt (world s)), cur_weather = w, cur_location = loc\<rparr>, s1)"
proof -
  obtain w s1 where "getWeatherWithFallback rt svc loc s = (Inr w, s1)"
    using getWeatherWithFallback_returns by blast
  then show ?thesis by (simp add: getCurrentContext_def)
qed

lemma getWeatherWithFallback_no_key:
  assumes "weatherClient svc = None \<or> \<not> truthy (weatherApiKey svc)"
  shows "getWeatherWithFallback rt svc loc s = (Inr None, s)"
  using assms by (auto simp: getWeatherWithFallback_def truthy_def split: option.splits)

lemma getWeatherWithFallback_failure:
  assumes "weatherClient svc = Some cl" "weatherApiKey svc = Some key" "key \<noteq> []"
      and "weather_get rt cl ''/weather''
             \<lparr>wp_lat = lat loc, wp_lon = lng loc, appid = key, units = ''imperial''\<rparr> (world s)
           = (Inl err, w)"
  shows "getWeatherWithFallback rt svc loc s =
           (Inr None, s\<lparr>world := w, trace := trace s @ [Request, Warn]\<rparr>)"
  using assms by (simp add: getWeatherWithFallback_def truthy_def invoke_def console_warn_def)

text \<open>
  Claim C8. For every local hour \<open>h\<close> (below 24) that the clock shows when
  \<open>getCurrentContext\<close> is called, the call returns a context whose time of day is
  \<open>morning\<close> when \<open>5 \<le> h < 12\<close>, \<open>afternoon\<close> when \<open>12 \<le> h < 17\<close>, \<open>evening\<close> when
  \<open>17 \<le> h < 21\<close>, and \<open>night\<close> when \<open>h < 5\<close> or \<open>21 \<le> h\<close>.
\<close>

theorem timeOfDay_boundaries:
  assumes "getCurrentContext rt svc loc s = (res, s1)"
      and "getHours (new_Date rt (world s)) = h" and "h < 24"
  shows "\<exists>ctx. res = Inr ctx \<and>
           (5 \<le> h \<and> h < 12 \<longrightarrow> time_timeOfDay (time ctx) = morning) \<and>
           (12 \<le> h \<and> h < 17 \<longrightarrow> time_timeOfDay (time ctx) = afternoon) \<and>
           (17 \<le> h \<and> h < 21 \<longrightarrow> time_timeOfDay (time ctx) = evening) \<and>
           (h < 5 \<or> 21 \<le> h \<longrightarrow> time_timeOfDay (time ctx) = night)"
proof -
  obtain w s2 where "getCurrentContext rt svc loc s =
     (Inr \<lparr>time = getTimeContext (new_Date rt (world s)), cur_weather = w, cur_location = loc\<rparr>, s2)"
    using getCurrentContext_returns by blast
  with assms show ?thesis by (auto simp: getTimeContext_def)
qed

theorem timeOfDay_boundaries_witness:
  "\<exists>ctx. fst (getCurrentContext (sim_runtime (\<lambda>n. Inl Null))
                 (ContextService_constructor Map.empty None) sim_place (sim_start 64800000))
            = Inr ctx \<and>
         time_timeOfDay (time ctx) = evening"
proof -
  let ?rt = "sim_runtime (\<lambda>n. Inl Null)"
  let ?svc = "ContextService_constructor Map.empty None"
  obtain res s1 where run: "getCurrentContext ?rt ?svc sim_place (sim_start 64800000) = (res, s1)"
    by (cases "getCurrentContext ?rt ?svc sim_place (sim_start 64800000)")
  have h: "getHours (new_Date ?rt (world (sim_start 64800000))) = 18"
    by (simp add: sim_runtime_def sim_start_def)
  from timeOfDay_boundaries[OF run h] run show ?thesis by auto
qed

text \<open>
  Claim C9. For every location, \<open>getCurrentContext\<close> returns a context and never a
  failure. A service constructed with no weather key (no argument and no
  \<open>OPENWEATHER_API_KEY\<close>) has no weather client; with no client or no key the weather
  is undefined and the process state is untouched, so no request is sent. When the
  weather request is rejected, whatever the failure, the weather is undefined and the
  call still returns its context.
\<close>

theorem weather_failure_absorbed:
  assumes run: "getCurrentContext rt svc loc s = (res, s1)"
  shows "(\<exists>ctx. res = Inr ctx) \<and>
         (\<not> truthy key_arg \<and> \<not> truthy (env ''OPENWEATHER_API_KEY'') \<longrightarrow>
            weatherClient (ContextService_constructor env key_arg) = None) \<and>
         (weatherClient svc = None \<or> \<not> truthy (weatherApiKey svc) \<longrightarrow>
            (\<exists>ctx. res = Inr ctx \<and> cur_weather ctx = None) \<and> s1 = s) \<and>
         (weatherClient svc = Some cl \<and> weatherApiKey svc = Some key \<and> key \<noteq> [] \<and>
          weather_get rt cl ''/weather''
             \<lparr>wp_lat = lat loc, wp_lon = lng loc, appid = key, units = ''imperial''\<rparr> (world s)
           = (Inl err, w) \<longrightarrow>
            (\<exists>ctx. res = Inr ctx \<and> cur_weather ctx = None))"
proof (intro conjI impI)
  from getCurrentContext_returns[of rt svc loc s] run
  show "\<exists>ctx. res = Inr ctx" by auto
next
  assume "\<not> truthy key_arg \<and> \<not> truthy (env ''OPENWEATHER_API_KEY'')"
  then show "weatherClient (ContextService_constructor env key_arg) = None"
    by (simp add: ContextService_constructor_def or_else_def truthy_def)
next
  assume a: "weatherClient svc = None \<or> \<not> truthy (weatherApiKey svc)"
  from getWeatherWithFallback_no_key[OF a, of rt loc s] run
  show "\<exists>ctx. res = Inr ctx \<and> cur_weather ctx = None" "s1 = s"
    by (auto simp: getCurrentContext_def)
next
  assume a: "weatherClient svc = Some cl \<and> weatherApiKey svc = Some key \<and> key \<noteq> [] \<and>
          weather_get rt cl ''/weather''
             \<lparr>wp_lat = lat loc, wp_lon = lng loc, appid = key, units = ''imperial''\<rparr> (world s)
           = (Inl err, w)"
  then have "getWeatherWithFallback rt svc loc s =
           (Inr None, s\<lparr>world := w, trace := trace s @ [Request, Warn]\<rparr>)"
    using getWeatherWithFallback_failure[where svc = svc and cl = cl and key = key and rt = rt
        and loc = loc and s = s and err = err and w = w]
    by simp
  with run show "\<exists>ctx. res = Inr ctx \<and> cur_weather ctx = None"
    by (auto simp: getCurrentContext_def)
qed

theorem weather_failure_absorbed_witness:
  "(\<exists>ctx. getCurrentContext (sim_runtime (\<lambda>n. Inl Null))
             (ContextService_constructor Map.empty None) sim_place (sim_start 0)
           = (Inr ctx, sim_start 0) \<and> cur_weather ctx = None) \<and>
   (\<exists>ctx s1. getCurrentContext (sim_runtime (\<lambda>n. Inl Null))
             (ContextService_constructor Map.empty (Some ''owm-key'')) sim_place (sim_start 0)
           = (Inr ctx, s1) \<and> cur_weather ctx = None)"
proof
  let ?rt = "sim_runtime (\<lambda>n. Inl Null)"
  let ?svc = "ContextService_constructor Map.empty None"
  obtain res s1 where run: "getCurrentContext ?rt ?svc sim_place (sim_start 0) = (res, s1)"
    by (cases "getCurrentContext ?rt ?svc sim_place (sim_start 0)")
  have nk: "\<not> truthy None \<and> \<not> truthy (Map.empty ''OPENWEATHER_API_KEY'')"
    by (simp add: truthy_def)
  from weather_failure_absorbed[OF run, where key_arg = None and env = Map.empty] nk run
  show "\<exists>ctx. getCurrentContext ?rt ?svc sim_place (sim_start 0) = (Inr ctx, sim_start 0) \<and>
          cur_weather ctx = None"
    by auto
next
  let ?rt = "sim_runtime (\<lambda>n. Inl Null)"
  let ?svc = "ContextService_constructor Map.empty (Some ''owm-key'')"
  let ?cl = "\<lparr>baseURL = ''https://api.openweathermap.org/data/2.5'', headers = [], timeout = 5000\<rparr>"
  obtain res s1 where run: "getCurrentContext ?rt ?svc sim_place (sim_start 0) = (res, s1)"
    by (cases "getCurrentContext ?rt ?svc sim_place (sim_start 0)")
  have svc: "weatherClient ?svc = Some ?cl" "weatherApiKey ?svc = Some ''owm-key''"
    by (simp_all add: ContextService_constructor_def or_else_def truthy_def)
  have fail: "weather_get ?rt ?cl ''/weather''
             \<lparr>wp_lat = lat sim_place, wp_lon = lng sim_place, appid = ''owm-key'', units = ''imperial''\<rparr>
             (world (sim_start 0))
           = (Inl (AxiosError ''timeout of 5000ms exceeded'' None), (5000, 1))"
    by (simp add: sim_runtime_def sim_start_def)
  from weather_failure_absorbed[OF run, where cl = ?cl and key = "''owm-key''"
      and err = "AxiosError ''timeout of 5000ms exceeded'' None" and w = "(5000, 1)"] svc fail run
  show "\<exists>ctx s1. getCurrentContext ?rt ?svc sim_place (sim_start 0) = (Inr ctx, s1) \<and>
          cur_weather ctx = None"
    by auto
qed

section \<open>Construction of the recommendation client\<close>

text \<open>
  Claim C10. Constructing a \<open>YelpService\<close> with no usable key argument and no usable
  \<open>YELP_API_KEY\<close> in the environment throws an \<open>Error\<close> with the message
  \<open>Yelp API key is required\<close>; with a key from either place the construction succeeds,
  the cache is empty and the client points at the remote service.
\<close>

theorem constructor_requires_key:
  "(\<not> truthy apiKey \<and> \<not> truthy (env ''YELP_API_KEY'') \<longrightarrow>
      YelpService_constructor env apiKey = Inl (Error ''Yelp API key is required'')) \<and>
   (truthy apiKey \<or> truthy (env ''YELP_API_KEY'') \<longrightarrow>
      (\<exists>svc. YelpService_constructor env apiKey = Inr svc \<and> cache svc = Map.empty \<and>
             baseURL (client svc) = ''https://api.yelp.com''))"
  by (auto simp: YelpService_constructor_def or_else_def truthy_def split: option.splits)

theorem constructor_requires_key_witness:
  "YelpService_constructor Map.empty None = Inl (Error ''Yelp API key is required'') \<and>
   (\<exists>svc. YelpService_constructor Map.empty (Some ''key-1'') = Inr svc \<and> cache svc = Map.empty) \<and>
   (\<exists>svc. YelpService_constructor [''YELP_API_KEY'' \<mapsto> ''key-2''] None = Inr svc \<and>
          cache svc = Map.empty)"
proof (intro conjI)
  show "YelpService_constructor Map.empty None = Inl (Error ''Yelp API key is required'')"
    using constructor_requires_key[of None Map.empty] by (simp add: truthy_def)
  show "\<exists>svc. YelpService_constructor Map.empty (Some ''key-1'') = Inr svc \<and> cache svc = Map.empty"
    using constructor_requires_key[of "Some ''key-1''" Map.empty] by (auto simp: truthy_def)
  show "\<exists>svc. YelpService_constructor [''YELP_API_KEY'' \<mapsto> ''key-2''] None = Inr svc \<and>
          cache svc = Map.empty"
    using constructor_requires_key[of None "[''YELP_API_KEY'' \<mapsto> ''key-2'']"]
    by (auto simp: truthy_def)
qed

section \<open>The context extractor\<close>

lemma parseInt_empty: "parseInt [] = None"
  by (simp add: parseInt_def next_char_def)

lemma scan_patterns_step:
  "scan_patterns (p # ps) text =
     (case captured_size p text of
        Some n \<Rightarrow> (if 0 < n \<and> n \<le> 100 then Some n else scan_patterns ps text)
      | None \<Rightarrow> scan_patterns ps text)"
  by (auto simp: captured_size_def parseInt_empty split: option.splits)

lemma scan_patterns_none:
  "(\<forall>j<length ps. \<forall>k. \<not> proposes (ps ! j) text k) \<Longrightarrow> scan_patterns ps text = None"
proof (induction ps)
  case Nil
  then show ?case by simp
next
  case (Cons p ps)
  from Cons.prems have "\<forall>k. \<not> proposes p text k" by auto
  moreover from Cons.prems have "\<forall>j<length ps. \<forall>k. \<not> proposes (ps ! j) text k" by auto
  ultimately show ?case
    using Cons.IH by (auto simp add: scan_patterns_step proposes_def simp del: scan_patterns.simps split: option.splits)
qed

lemma scan_patterns_first:
  "i < length ps \<Longrightarrow> proposes (ps ! i) text n \<Longrightarrow>
   (\<forall>j<i. \<forall>k. \<not> proposes (ps ! j) text k) \<Longrightarrow> scan_patterns ps text = Some n"
proof (induction ps arbitrary: i)
  case Nil
  then show ?case by simp
next
  case (Cons p ps)
  show ?case
  proof (cases i)
    case 0
    with Cons.prems show ?thesis
      by (simp add: scan_patterns_step proposes_def del: scan_patterns.simps)
  next
    case (Suc i')
    with Cons.prems have "\<forall>k. \<not> proposes p text k" by auto
    moreover from Suc Cons.prems have "scan_patterns ps text = Some n"
      by (intro Cons.IH[of i']) auto
    ultimately show ?thesis
      by (auto simp add: scan_patterns_step proposes_def simp del: scan_patterns.simps split: option.splits)
  qed
qed

lemma solo_indicator_phrases:
  "solo_indicator text = list_ex (includes_str text) solo_phrases"
  by (simp add: solo_indicator_def solo_phrases_def)

text \<open>Three conversations, evaluated.\<close>

lemma sim_text_solo:
  "conversationText [sim_user ''Table for 4 people, actually SOLO tonight'']
     = ''table for 4 people, actually solo tonight''"
  by code_simp

lemma sim_text_group:
  "conversationText [sim_user ''200 people or maybe for 7'']
     = ''200 people or maybe for 7''"
  by code_simp

lemma sim_text_none:
  "conversationText [sim_user ''Hello''] = ''hello''"
  by code_simp

lemma sim_solo_1: "list_ex (includes_str ''table for 4 people, actually solo tonight'') solo_phrases"
  by code_simp

lemma sim_solo_2: "proposes (groupSizePatterns ! 0) ''table for 4 people, actually solo tonight'' 4"
  by code_simp

lemma sim_group_1: "\<not> list_ex (includes_str ''200 people or maybe for 7'') solo_phrases"
  by code_simp

lemma sim_group_2: "proposes (groupSizePatterns ! 4) ''200 people or maybe for 7'' 7"
  by code_simp

lemma sim_group_3:
  "captured_size (groupSizePatterns ! 0) ''200 people or maybe for 7'' = Some 200"
  "captured_size (groupSizePatterns ! 1) ''200 people or maybe for 7'' = None"
  "captured_size (groupSizePatterns ! 2) ''200 people or maybe for 7'' = None"
  "captured_size (groupSizePatterns ! 3) ''200 people or maybe for 7'' = None"
  by code_simp+


lemma sim_hello:
  "captured_size (groupSizePatterns ! 0) ''hello'' = None"
  "captured_size (groupSizePatterns ! 1) ''hello'' = None"
  "captured_size (groupSizePatterns ! 2) ''hello'' = None"
  "captured_size (groupSizePatterns ! 3) ''hello'' = None"
  "captured_size (groupSizePatterns ! 4) ''hello'' = None"
  "captured_size (groupSizePatterns ! 5) ''hello'' = None"
  by code_simp+

lemma sim_hello_solo: "\<not> list_ex (includes_str ''hello'') solo_phrases"
  by code_simp

text \<open>
  Claim C7. For every conversation: when the lower-cased text of its user turns contains
  one of the phrases \<open>just me\<close>, \<open>by myself\<close>, \<open>solo\<close>, \<open>just for me\<close>, the group size is
  1, whatever the numeric patterns would match; otherwise the first pattern, in the
  fixed order, whose captured integer lies in \<open>(0, 100]\<close> gives the group size, and the
  group size stays unset when there is no such pattern.
\<close>

theorem groupSize_resolution:
  "(list_ex (includes_str (conversationText messages)) solo_phrases \<longrightarrow>
      groupSize (extractContextFromConversation messages) = Some 1) \<and>
   (\<not> list_ex (includes_str (conversationText messages)) solo_phrases \<and>
    i < length groupSizePatterns \<and>
    proposes (groupSizePatterns ! i) (conversationText messages) n \<and>
    (\<forall>j<i. \<forall>k. \<not> proposes (groupSizePatterns ! j) (conversationText messages) k) \<longrightarrow>
      groupSize (extractContextFromConversation messages) = Some n) \<and>
   (\<not> list_ex (includes_str (conversationText messages)) solo_phrases \<and>
    (\<forall>j<length groupSizePatterns. \<forall>k. \<not> proposes (groupSizePatterns ! j) (conversationText messages) k) \<longrightarrow>
      groupSize (extractContextFromConversation messages) = None)"
proof (intro conjI impI)
  assume "list_ex (includes_str (conversationText messages)) solo_phrases"
  then show "groupSize (extractContextFromConversation messages) = Some 1"
    by (simp add: extractContextFromConversation_def solo_indicator_phrases Let_def)
next
  assume a: "\<not> list_ex (includes_str (conversationText messages)) solo_phrases \<and>
    i < length groupSizePatterns \<and>
    proposes (groupSizePatterns ! i) (conversationText messages) n \<and>
    (\<forall>j<i. \<forall>k. \<not> proposes (groupSizePatterns ! j) (conversationText messages) k)"
  then have "scan_patterns groupSizePatterns (conversationText messages) = Some n"
    using scan_patterns_first[of i groupSizePatterns "conversationText messages" n] by blast
  with a show "groupSize (extractContextFromConversation messages) = Some n"
    by (simp add: extractContextFromConversation_def solo_indicator_phrases Let_def)
next
  assume a: "\<not> list_ex (includes_str (conversationText messages)) solo_phrases \<and>
    (\<forall>j<length groupSizePatterns. \<forall>k. \<not> proposes (groupSizePatterns ! j) (conversationText messages) k)"
  then have "scan_patterns groupSizePatterns (conversationText messages) = None"
    using scan_patterns_none[of groupSizePatterns "conversationText messages"] by blast
  with a show "groupSize (extractContextFromConversation messages) = None"
    by (simp add: extractContextFromConversation_def solo_indicator_phrases Let_def)
qed

theorem groupSize_resolution_witness:
  "list_ex (includes_str (conversationText [sim_user ''Table for 4 people, actually SOLO tonight'']))
      solo_phrases \<and>
   proposes (groupSizePatterns ! 0)
      (conversationText [sim_user ''Table for 4 people, actually SOLO tonight'']) 4 \<and>
   groupSize (extractContextFromConversation [sim_user ''Table for 4 people, actually SOLO tonight''])
     = Some 1 \<and>
   captured_size (groupSizePatterns ! 0) (conversationText [sim_user ''200 people or maybe for 7''])
     = Some 200 \<and>
   groupSize (extractContextFromConversation [sim_user ''200 people or maybe for 7'']) = Some 7 \<and>
   groupSize (extractContextFromConversation [sim_user ''Hello'']) = None"
proof (intro conjI)
  let ?solo = "[sim_user ''Table for 4 people, actually SOLO tonight'']"
  let ?group = "[sim_user ''200 people or maybe for 7'']"
  let ?hello = "[sim_user ''Hello'']"
  show s1: "list_ex (includes_str (conversationText ?solo)) solo_phrases"
    by (simp only: sim_text_solo sim_solo_1)
  show "proposes (groupSizePatterns ! 0) (conversationText ?solo) 4"
    by (simp only: sim_text_solo sim_solo_2)
  from groupSize_resolution[of ?solo, THEN conjunct1] s1
  show "groupSize (extractContextFromConversation ?solo) = Some 1" by blast
  show "captured_size (groupSizePatterns ! 0) (conversationText ?group) = Some 200"
    by (simp only: sim_text_group sim_group_3)
  have earlier: "\<forall>j<4. \<forall>k. \<not> proposes (groupSizePatterns ! j) (conversationText ?group) k"
  proof (intro allI impI)
    fix j :: nat and k :: real
    assume "j < 4"
    then consider "j = 0" | "j = 1" | "j = 2" | "j = 3" by linarith
    then show "\<not> proposes (groupSizePatterns ! j) (conversationText ?group) k"
      by cases (simp_all add: proposes_def sim_text_group sim_group_3 del: One_nat_def)
  qed
  have "\<not> list_ex (includes_str (conversationText ?group)) solo_phrases"
    by (simp only: sim_text_group sim_group_1 not_False_eq_True)
  moreover have "4 < length groupSizePatterns" by (simp add: groupSizePatterns_def)
  moreover have "proposes (groupSizePatterns ! 4) (conversationText ?group) 7"
    by (simp only: sim_text_group sim_group_2)
  ultimately show "groupSize (extractContextFromConversation ?group) = Some 7"
    using groupSize_resolution[of ?group 4 7, THEN conjunct2, THEN conjunct1] earlier by blast
  have none: "\<forall>j<length groupSizePatterns. \<forall>k. \<not> proposes (groupSizePatterns ! j) (conversationText ?hello) k"
  proof (intro allI impI)
    fix j :: nat and k :: real
    assume "j < length groupSizePatterns"
    then have "j < 6" by (simp add: groupSizePatterns_def)
    then consider "j = 0" | "j = 1" | "j = 2" | "j = 3" | "j = 4" | "j = 5" by linarith
    then show "\<not> proposes (groupSizePatterns ! j) (conversationText ?hello) k"
      by cases (simp_all add: proposes_def sim_text_none sim_hello del: One_nat_def)
  qed
  have "\<not> list_ex (includes_str (conversationText ?hello)) solo_phrases"
    by (simp only: sim_text_none sim_hello_solo not_False_eq_True)
  with none show "groupSize (extractContextFromConversation ?hello) = None"
    using groupSize_resolution[of ?hello, THEN conjunct2, THEN conjunct2] by blast
qed

text \<open>
  Claim C1 says that the first example has no occasion and that the second yields the
  group size and nothing else. The text of the first contains the occasion keyword
  \<open>romantic dinner\<close> and the text of the second contains \<open>group\<close>, so the extractor
  sets an occasion in both.
\<close>

theorem extract_examples_counterexample:
  "extractContextFromConversation [sim_user ''Looking for a romantic dinner for 2 people'']
     \<noteq> empty_context\<lparr>mood := Some ''romantic'', groupSize := Some 2\<rparr> \<and>
   extractContextFromConversation [sim_user ''Need a place for a group of 8'']
     \<noteq> empty_context\<lparr>groupSize := Some 8\<rparr>"
  by code_simp

text \<open>
  Claim C1, amended. A single user turn \<open>Looking for a romantic dinner for 2 people\<close>
  yields exactly mood \<open>romantic\<close>, occasion \<open>date night\<close> and group size 2; the turn
  \<open>Need a place for a group of 8\<close> yields exactly occasion \<open>group hangout\<close> and group
  size 8; the turn \<open>Hello\<close> yields the empty context.
\<close>

theorem extract_examples:
  "extractContextFromConversation [sim_user ''Looking for a romantic dinner for 2 people'']
     = \<lparr>location = None, timeOfDay = None, weather = None, groupSize = Some 2,
        occasion = Some ''date night'', mood = Some ''romantic''\<rparr> \<and>
   extractContextFromConversation [sim_user ''Need a place for a group of 8'']
     = \<lparr>location = None, timeOfDay = None, weather = None, groupSize = Some 8,
        occasion = Some ''group hangout'', mood = None\<rparr> \<and>
   extractContextFromConversation [sim_user ''Hello'']
     = \<lparr>location = None, timeOfDay = None, weather = None, groupSize = None,
        occasion = None, mood = None\<rparr>"
  by code_simp

end
